theory Spec2Isabelle
  imports Complex_Main "HOL-Library.Multiset" "HOL-Library.Log_Nat"
begin

section \<open>Campus event management: participation lifecycle and reports\<close>

text \<open>
  A shallow embedding of \<^verbatim>\<open>services.py\<close> (the service layer), of the tables of
  \<^verbatim>\<open>database.py\<close> it works on and of the request and response models of
  \<^verbatim>\<open>models.py\<close>.

  Conventions of the embedding.
  \<^item> A table is the list of its rows in row-id order; \<^verbatim>\<open>.first()\<close> is the first
    row of that list that passes the filter, \<^verbatim>\<open>.count()\<close> the number of rows that
    pass it, \<^verbatim>\<open>.order_by(col)\<close> a stable sort of the rows by the column.
  \<^item> The session is passed explicitly: every operation returns its result together with
    the session after it. A raised exception is the left injection of the result; the
    session is then the one before the call (nothing was committed).
  \<^item> \<^verbatim>\<open>datetime.utcnow()\<close> is a parameter of the operation; a timestamp is an integer.
  \<^item> Python's unbounded integers are \<open>int\<close>. A Python float is an IEEE 754 binary64
    number, embedded as the rational it denotes; every operation on floats rounds its
    exact result to the nearest double, a tie going to the even significand
    (\<open>fl\<close> below). The store is SQLite (the default \<^verbatim>\<open>DATABASE_URL\<close> of \<^verbatim>\<open>database.py\<close>), whose
    \<^verbatim>\<open>avg\<close> divides the sum by the count as doubles.
\<close>

subsection \<open>Enumerations of models.py\<close>

datatype EventType =
  WORKSHOP | SEMINAR | CONFERENCE | COMPETITION | SYMPOSIUM | SOCIAL | SPORTS | OTHER

datatype RegistrationStatus = REGISTERED | CANCELLED | WAITLISTED

datatype AttendanceStatus = PRESENT | ABSENT | LATE

subsection \<open>Exceptions\<close>

datatype error =
  HTTPException nat string
  | NameError string
  | IntegrityError string
  | ValidationError string

text \<open>
  Every error branch of \<^verbatim>\<open>services.py\<close> is written
  \<^verbatim>\<open>raise HTTPException(status_code=status.HTTP_..., detail=...)\<close>. The module's imports
  are \<^verbatim>\<open>sqlalchemy\<close>, \<^verbatim>\<open>typing\<close>, \<^verbatim>\<open>datetime\<close>, \<^verbatim>\<open>from models import *\<close>
  and six classes of \<^verbatim>\<open>database\<close>; \<^verbatim>\<open>models.py\<close> imports only \<^verbatim>\<open>pydantic\<close>,
  \<^verbatim>\<open>typing\<close>, \<^verbatim>\<open>datetime\<close> and \<^verbatim>\<open>enum\<close>. Neither \<^verbatim>\<open>HTTPException\<close> nor
  \<^verbatim>\<open>status\<close> is therefore bound in \<^verbatim>\<open>services.py\<close>: evaluating the operand of the
  \<^verbatim>\<open>raise\<close> statement raises \<^verbatim>\<open>NameError: name 'HTTPException' is not defined\<close>
  before any HTTP exception is built. The status code and the detail the statement
  names are kept as arguments so that each branch can be read against its source line.
\<close>

definition raise_HTTPException :: "nat \<Rightarrow> string \<Rightarrow> error" where
  "raise_HTTPException status_code detail = NameError ''HTTPException''"

subsection \<open>Tables of database.py\<close>

type_synonym datetime = int

record College =
  c_id :: int
  c_name :: string

record Student =
  s_id :: int
  s_first_name :: string
  s_last_name :: string
  s_college_id :: int

record Event =
  e_id :: int
  e_title :: string
  e_event_type :: "EventType option"
  e_college_id :: int
  e_start_date :: datetime
  e_max_capacity :: "int option"
  e_is_cancelled :: bool

record EventRegistration =
  r_id :: int
  r_student_id :: int
  r_event_id :: int
  r_registration_date :: datetime
  r_status :: RegistrationStatus

record Attendance =
  a_id :: int
  a_student_id :: int
  a_event_id :: int
  a_check_in_time :: datetime
  a_check_out_time :: "datetime option"
  a_attendance_status :: AttendanceStatus

record EventFeedback =
  f_id :: int
  f_student_id :: int
  f_event_id :: int
  f_rating :: int
  f_feedback_text :: "string option"
  f_submitted_at :: datetime

record Session =
  colleges :: "College list"
  students :: "Student list"
  events :: "Event list"
  event_registrations :: "EventRegistration list"
  attendance :: "Attendance list"
  event_feedback :: "EventFeedback list"

subsection \<open>Request models of models.py\<close>

record EventRegistrationCreate =
  rc_student_id :: int
  rc_event_id :: int
  rc_status :: RegistrationStatus

record AttendanceCreate =
  ac_student_id :: int
  ac_event_id :: int
  ac_attendance_status :: AttendanceStatus
  ac_check_out_time :: "datetime option"

record EventFeedbackCreate =
  fc_student_id :: int
  fc_event_id :: int
  fc_rating :: int
  fc_feedback_text :: "string option"

text \<open>\<^verbatim>\<open>EventFeedbackCreate.validate_rating\<close>: pydantic turns the \<^verbatim>\<open>ValueError\<close> into
  a validation error of the request.\<close>

definition validate_rating :: "int \<Rightarrow> error + int" where
  "validate_rating v =
     (if v < 1 \<or> v > 5 then Inl (ValidationError ''Rating must be between 1 and 5'')
      else Inr v)"

definition parse_EventFeedbackCreate ::
  "int \<Rightarrow> int \<Rightarrow> int \<Rightarrow> string option \<Rightarrow> error + EventFeedbackCreate" where
  "parse_EventFeedbackCreate student_id event_id rating feedback_text =
     (case validate_rating rating of
        Inl e \<Rightarrow> Inl e
      | Inr v \<Rightarrow> Inr \<lparr>fc_student_id = student_id, fc_event_id = event_id, fc_rating = v,
                       fc_feedback_text = feedback_text\<rparr>)"

subsection \<open>Store primitives\<close>

text \<open>Python truthiness of an optional integer: \<^verbatim>\<open>None\<close> and \<^verbatim>\<open>0\<close> are false.\<close>

fun truthy :: "int option \<Rightarrow> bool" where
  "truthy None = False"
| "truthy (Some n) = (n \<noteq> 0)"

text \<open>The integer primary key of a new row: one more than the largest in the table.\<close>

definition next_id :: "int list \<Rightarrow> int" where
  "next_id ids = fold max ids 0 + 1"

text \<open>\<^verbatim>\<open>db.add\<close> and \<^verbatim>\<open>db.commit\<close> of a new row. Each of the three tables carries
  \<^verbatim>\<open>UniqueConstraint('student_id', 'event_id')\<close>: the insert of a second row for a pair
  fails with an integrity error and stores nothing.\<close>

definition add_registration :: "Session \<Rightarrow> EventRegistration \<Rightarrow> error + Session" where
  "add_registration db row =
     (if list_ex (\<lambda>x. r_student_id x = r_student_id row \<and> r_event_id x = r_event_id row)
           (event_registrations db)
      then Inl (IntegrityError ''unique_registration'')
      else Inr (db\<lparr>event_registrations := event_registrations db @ [row]\<rparr>))"

definition add_attendance :: "Session \<Rightarrow> Attendance \<Rightarrow> error + Session" where
  "add_attendance db row =
     (if list_ex (\<lambda>x. a_student_id x = a_student_id row \<and> a_event_id x = a_event_id row)
           (attendance db)
      then Inl (IntegrityError ''unique_attendance'')
      else Inr (db\<lparr>attendance := attendance db @ [row]\<rparr>))"

definition add_feedback :: "Session \<Rightarrow> EventFeedback \<Rightarrow> error + Session" where
  "add_feedback db row =
     (if list_ex (\<lambda>x. f_student_id x = f_student_id row \<and> f_event_id x = f_event_id row)
           (event_feedback db)
      then Inl (IntegrityError ''unique_feedback'')
      else Inr (db\<lparr>event_feedback := event_feedback db @ [row]\<rparr>))"

text \<open>An attribute assignment on a loaded row followed by \<^verbatim>\<open>db.commit()\<close> is an
  \<^verbatim>\<open>UPDATE ... WHERE id = ?\<close>.\<close>

definition update_registration ::
  "int \<Rightarrow> (EventRegistration \<Rightarrow> EventRegistration) \<Rightarrow> Session \<Rightarrow> Session" where
  "update_registration pk f db =
     db\<lparr>event_registrations := map (\<lambda>r. if r_id r = pk then f r else r) (event_registrations db)\<rparr>"

text \<open>The count of the rows of an event in status \<^verbatim>\<open>registered\<close>.\<close>

definition count_registered :: "Session \<Rightarrow> int \<Rightarrow> nat" where
  "count_registered db event_id =
     length (filter (\<lambda>r. r_event_id r = event_id \<and> r_status r = REGISTERED)
               (event_registrations db))"

subsection \<open>EventService\<close>

text \<open>The tail of \<^verbatim>\<open>register_student\<close> (lines 66 to 81): the capacity check and the
  insert of the new row.\<close>

definition create_registration ::
  "Session \<Rightarrow> EventRegistrationCreate \<Rightarrow> Event \<Rightarrow> datetime
     \<Rightarrow> (error + EventRegistration) \<times> Session" where
  "create_registration db registration event utcnow =
     (let status =
            (case e_max_capacity event of
               None \<Rightarrow> rc_status registration
             | Some max_capacity \<Rightarrow>
                 if max_capacity \<noteq> 0
                    \<and> max_capacity \<le> int (count_registered db (rc_event_id registration))
                 then WAITLISTED else rc_status registration);
          db_registration =
            \<lparr>r_id = next_id (map r_id (event_registrations db)),
             r_student_id = rc_student_id registration,
             r_event_id = rc_event_id registration,
             r_registration_date = utcnow,
             r_status = status\<rparr>
      in case add_registration db db_registration of
           Inl e \<Rightarrow> (Inl e, db)
         | Inr db' \<Rightarrow> (Inr db_registration, db'))"

definition register_student ::
  "Session \<Rightarrow> EventRegistrationCreate \<Rightarrow> datetime \<Rightarrow> (error + EventRegistration) \<times> Session" where
  "register_student db registration utcnow =
     (case find (\<lambda>s. s_id s = rc_student_id registration) (students db) of
        None \<Rightarrow> (Inl (raise_HTTPException 404 ''Student not found''), db)
      | Some student \<Rightarrow>
     (case find (\<lambda>e. e_id e = rc_event_id registration) (events db) of
        None \<Rightarrow> (Inl (raise_HTTPException 404 ''Event not found''), db)
      | Some event \<Rightarrow>
          if e_is_cancelled event
          then (Inl (raise_HTTPException 400 ''Cannot register for cancelled event''), db)
          else if e_start_date event \<le> utcnow
          then (Inl (raise_HTTPException 400
                       ''Cannot register for event that has already started''), db)
          else
            (case find (\<lambda>r. r_student_id r = rc_student_id registration
                            \<and> r_event_id r = rc_event_id registration)
                       (event_registrations db) of
               None \<Rightarrow> create_registration db registration event utcnow
             | Some existing_registration \<Rightarrow>
                 (case r_status existing_registration of
                    REGISTERED \<Rightarrow>
                      (Inl (raise_HTTPException 400
                              ''Student is already registered for this event''), db)
                  | CANCELLED \<Rightarrow>
                      (Inr (existing_registration
                              \<lparr>r_registration_date := utcnow, r_status := REGISTERED\<rparr>),
                       update_registration (r_id existing_registration)
                         (\<lambda>r. r\<lparr>r_registration_date := utcnow, r_status := REGISTERED\<rparr>) db)
                  | WAITLISTED \<Rightarrow> create_registration db registration event utcnow))))"

text \<open>The waitlisted rows of an event, ordered by registration date.\<close>

definition waitlisted_of :: "Session \<Rightarrow> int \<Rightarrow> EventRegistration list" where
  "waitlisted_of db event_id =
     filter (\<lambda>r. r_event_id r = event_id \<and> r_status r = WAITLISTED) (event_registrations db)"

definition cancel_registration :: "Session \<Rightarrow> int \<Rightarrow> (error + string) \<times> Session" where
  "cancel_registration db registration_id =
     (case find (\<lambda>r. r_id r = registration_id) (event_registrations db) of
        None \<Rightarrow> (Inl (raise_HTTPException 404 ''Registration not found''), db)
      | Some registration \<Rightarrow>
          if r_status registration = CANCELLED
          then (Inl (raise_HTTPException 400 ''Registration is already cancelled''), db)
          else
            (let db1 = update_registration (r_id registration)
                         (\<lambda>r. r\<lparr>r_status := CANCELLED\<rparr>) db
             in case find (\<lambda>e. e_id e = r_event_id registration) (events db1) of
                  None \<Rightarrow> (Inr ''Registration cancelled successfully'', db1)
                | Some event \<Rightarrow>
                    if truthy (e_max_capacity event)
                    then
                      (case sort_key r_registration_date
                              (waitlisted_of db1 (r_event_id registration)) of
                         [] \<Rightarrow> (Inr ''Registration cancelled successfully'', db1)
                       | waitlisted # rest \<Rightarrow>
                           (Inr ''Registration cancelled successfully'',
                            update_registration (r_id waitlisted)
                              (\<lambda>r. r\<lparr>r_status := REGISTERED\<rparr>) db1))
                    else (Inr ''Registration cancelled successfully'', db1)))"

definition mark_attendance ::
  "Session \<Rightarrow> AttendanceCreate \<Rightarrow> datetime \<Rightarrow> (error + Attendance) \<times> Session" where
  "mark_attendance db att utcnow =
     (case find (\<lambda>s. s_id s = ac_student_id att) (students db) of
        None \<Rightarrow> (Inl (raise_HTTPException 404 ''Student not found''), db)
      | Some student \<Rightarrow>
     (case find (\<lambda>e. e_id e = ac_event_id att) (events db) of
        None \<Rightarrow> (Inl (raise_HTTPException 404 ''Event not found''), db)
      | Some event \<Rightarrow>
     (case find (\<lambda>r. r_student_id r = ac_student_id att \<and> r_event_id r = ac_event_id att
                      \<and> r_status r = REGISTERED) (event_registrations db) of
        None \<Rightarrow> (Inl (raise_HTTPException 400
                         ''Student is not registered for this event''), db)
      | Some registration \<Rightarrow>
     (case find (\<lambda>a. a_student_id a = ac_student_id att \<and> a_event_id a = ac_event_id att)
                (attendance db) of
        Some existing_attendance \<Rightarrow>
          (Inl (raise_HTTPException 400 ''Attendance already marked for this student''), db)
      | None \<Rightarrow>
          (let db_attendance =
                 \<lparr>a_id = next_id (map a_id (attendance db)),
                  a_student_id = ac_student_id att,
                  a_event_id = ac_event_id att,
                  a_check_in_time = utcnow,
                  a_check_out_time = ac_check_out_time att,
                  a_attendance_status = ac_attendance_status att\<rparr>
           in case add_attendance db db_attendance of
                Inl e \<Rightarrow> (Inl e, db)
              | Inr db' \<Rightarrow> (Inr db_attendance, db'))))))"

definition submit_feedback ::
  "Session \<Rightarrow> EventFeedbackCreate \<Rightarrow> datetime \<Rightarrow> (error + EventFeedback) \<times> Session" where
  "submit_feedback db fb utcnow =
     (case find (\<lambda>s. s_id s = fc_student_id fb) (students db) of
        None \<Rightarrow> (Inl (raise_HTTPException 404 ''Student not found''), db)
      | Some student \<Rightarrow>
     (case find (\<lambda>e. e_id e = fc_event_id fb) (events db) of
        None \<Rightarrow> (Inl (raise_HTTPException 404 ''Event not found''), db)
      | Some event \<Rightarrow>
     (case find (\<lambda>a. a_student_id a = fc_student_id fb \<and> a_event_id a = fc_event_id fb)
                (attendance db) of
        None \<Rightarrow> (Inl (raise_HTTPException 400
                         ''Student must attend the event to submit feedback''), db)
      | Some att \<Rightarrow>
     (case find (\<lambda>f. f_student_id f = fc_student_id fb \<and> f_event_id f = fc_event_id fb)
                (event_feedback db) of
        Some existing_feedback \<Rightarrow>
          (Inl (raise_HTTPException 400 ''Feedback already submitted for this event''), db)
      | None \<Rightarrow>
          (let db_feedback =
                 \<lparr>f_id = next_id (map f_id (event_feedback db)),
                  f_student_id = fc_student_id fb,
                  f_event_id = fc_event_id fb,
                  f_rating = fc_rating fb,
                  f_feedback_text = fc_feedback_text fb,
                  f_submitted_at = utcnow\<rparr>
           in case add_feedback db db_feedback of
                Inl e \<Rightarrow> (Inl e, db)
              | Inr db' \<Rightarrow> (Inr db_feedback, db'))))))"

text \<open>The route \<^verbatim>\<open>POST /feedback\<close> of \<^verbatim>\<open>main.py\<close>: the request body is parsed into
  \<^verbatim>\<open>EventFeedbackCreate\<close>, validator included, before the service is called.\<close>

definition post_feedback ::
  "Session \<Rightarrow> int \<Rightarrow> int \<Rightarrow> int \<Rightarrow> string option \<Rightarrow> datetime
     \<Rightarrow> (error + EventFeedback) \<times> Session" where
  "post_feedback db student_id event_id rating feedback_text utcnow =
     (case parse_EventFeedbackCreate student_id event_id rating feedback_text of
        Inl e \<Rightarrow> (Inl e, db)
      | Inr fb \<Rightarrow> submit_feedback db fb utcnow)"

subsection \<open>Numbers of the reports\<close>

text \<open>The integer nearest to a rational, a tie going to the even one.\<close>

definition round_half_even :: "rat \<Rightarrow> int" where
  "round_half_even y =
     (let f = \<lfloor>y\<rfloor>; d = y - of_int f
      in if d < 1 / 2 then f else if 1 / 2 < d then f + 1 else if even f then f else f + 1)"

text \<open>The binary exponent of a positive rational: \<open>2 powi ilog2 x \<le> x < 2 powi (ilog2 x + 1)\<close>.\<close>

definition ilog2 :: "rat \<Rightarrow> int" where
  "ilog2 x =
     (case quotient_of x of
        (p, q) \<Rightarrow> let d = bitlen p - bitlen q in if 2 powi d \<le> x then d else d - 1)"

text \<open>The double nearest to a rational: a significand of 53 bits at the exponent of the
  number, which is \<open>- 1022\<close> at least (below it the numbers are subnormal, multiples of
  \<open>2 powi (- 1074)\<close>). The exponent is not bounded above: a number of \<open>2 ^ 1024\<close> or more,
  where Python raises \<^verbatim>\<open>OverflowError\<close> or gives \<^verbatim>\<open>inf\<close>, is not reached from counts
  of rows and ratings.\<close>

definition fl :: "rat \<Rightarrow> rat" where
  "fl x =
     (if x = 0 then 0
      else let e = max (ilog2 \<bar>x\<bar>) (- 1022); q = 2 powi (e - 52)
           in of_int (round_half_even (x / q)) * q)"

text \<open>The values of the format: an integer of at most 53 bits times a power of two.\<close>

definition representable :: "rat \<Rightarrow> bool" where
  "representable y = (\<exists>m t. y = of_int m * 2 powi t \<and> \<bar>m\<bar> \<le> 2 ^ 53 \<and> - 1074 \<le> t)"

text \<open>\<^verbatim>\<open>float(n)\<close> of an integer, also the conversion of the integer operand of a mixed
  operation and of an integer given to a \<^verbatim>\<open>float\<close> field of a response model.\<close>

definition float_of_int :: "int \<Rightarrow> rat" where
  "float_of_int n = fl (of_int n)"

text \<open>\<^verbatim>\<open>a / b\<close> on two integers: the correctly rounded quotient. Every caller guards
  \<open>b \<noteq> 0\<close>.\<close>

definition int_truediv :: "int \<Rightarrow> int \<Rightarrow> rat" where
  "int_truediv a b = fl (of_int a / of_int b)"

text \<open>\<^verbatim>\<open>x * y\<close>, \<^verbatim>\<open>x + y\<close> and \<^verbatim>\<open>x / y\<close> on two floats.\<close>

definition float_mul :: "rat \<Rightarrow> rat \<Rightarrow> rat" where
  "float_mul x y = fl (x * y)"

definition float_add :: "rat \<Rightarrow> rat \<Rightarrow> rat" where
  "float_add x y = fl (x + y)"

definition float_div :: "rat \<Rightarrow> rat \<Rightarrow> rat" where
  "float_div x y = fl (x / y)"

text \<open>\<^verbatim>\<open>round(x, 2)\<close> on a float: the exact value of \<open>x\<close> is rounded to two decimals, a tie
  going to the even digit, and the double nearest to that decimal is returned.\<close>

definition py_round2 :: "rat \<Rightarrow> rat" where
  "py_round2 x = fl (of_int (round_half_even (x * 100)) / 100)"

text \<open>\<^verbatim>\<open>func.avg\<close> over the selected rows: \<^verbatim>\<open>None\<close> when there is none, else the sum
  of the ratings divided by their number, as doubles.\<close>

definition sql_avg :: "int list \<Rightarrow> rat option" where
  "sql_avg xs =
     (if xs = [] then None
      else Some (float_div (float_of_int (sum_list xs)) (float_of_int (int (length xs)))))"

text \<open>\<^verbatim>\<open>float(v) if v else None\<close>: a zero is dropped with \<^verbatim>\<open>None\<close>.\<close>

fun float_if_truthy :: "rat option \<Rightarrow> rat option" where
  "float_if_truthy None = None"
| "float_if_truthy (Some v) = (if v = 0 then None else Some v)"

text \<open>\<^verbatim>\<open>(a / b * 100) if b > 0 else 0\<close>: the quotient of the two counts is rounded to a
  double, and so is its product with 100. The \<^verbatim>\<open>0\<close> of the other branch is an integer,
  which \<^verbatim>\<open>round\<close> returns as it is.\<close>

definition percentage :: "nat \<Rightarrow> nat \<Rightarrow> rat" where
  "percentage a b = (if 0 < b then float_mul (int_truediv (int a) (int b)) 100 else 0)"

text \<open>\<^verbatim>\<open>sorted(xs, key=key, reverse=True)\<close>: descending, and stable (elements with equal
  keys keep their order); CPython reverses, sorts stably and reverses again.\<close>

definition sorted_reverse :: "('a \<Rightarrow> 'k::linorder) \<Rightarrow> 'a list \<Rightarrow> 'a list" where
  "sorted_reverse key xs = rev (sort_key key (rev xs))"

text \<open>The slice \<^verbatim>\<open>xs[:limit]\<close>; a negative limit counts from the end.\<close>

definition slice_to :: "int \<Rightarrow> 'a list \<Rightarrow> 'a list" where
  "slice_to limit xs =
     (if 0 \<le> limit then take (nat limit) xs else take (length xs - nat (- limit)) xs)"

subsection \<open>Response models of models.py\<close>

record EventStats =
  es_event_id :: int
  es_event_title :: string
  es_total_registrations :: nat
  es_total_attendance :: nat
  es_attendance_percentage :: rat
  es_average_rating :: "rat option"
  es_total_feedback :: nat

record EventParticipationReport =
  ep_event_id :: int
  ep_event_title :: string
  ep_event_type :: EventType
  ep_college_name :: string
  ep_start_date :: datetime
  ep_total_registrations :: nat
  ep_attendance_count :: nat
  ep_attendance_percentage :: rat
  ep_average_rating :: "rat option"
  ep_feedback_count :: nat
  ep_capacity_utilization :: "rat option"

record TopStudentsReport =
  ts_student_id :: int
  ts_student_name :: string
  ts_college_name :: string
  ts_participation_score :: rat
  ts_total_events_attended :: nat
  ts_average_rating_given :: "rat option"

subsection \<open>ReportService\<close>

text \<open>The three queries every event report repeats.\<close>

definition count_present_event :: "Session \<Rightarrow> int \<Rightarrow> nat" where
  "count_present_event db event_id =
     length (filter (\<lambda>a. a_event_id a = event_id \<and> a_attendance_status a = PRESENT)
               (attendance db))"

definition feedback_of_event :: "Session \<Rightarrow> int \<Rightarrow> EventFeedback list" where
  "feedback_of_event db event_id = filter (\<lambda>f. f_event_id f = event_id) (event_feedback db)"

text \<open>The body shared by \<^verbatim>\<open>get_event_stats\<close> and the loop of
  \<^verbatim>\<open>get_event_popularity_report\<close>.\<close>

definition event_stats_of :: "Session \<Rightarrow> Event \<Rightarrow> EventStats" where
  "event_stats_of db event =
     (let total_registrations = count_registered db (e_id event);
          total_attendance = count_present_event db (e_id event);
          feedback_rows = feedback_of_event db (e_id event);
          attendance_percentage = percentage total_attendance total_registrations
      in \<lparr>es_event_id = e_id event,
          es_event_title = e_title event,
          es_total_registrations = total_registrations,
          es_total_attendance = total_attendance,
          es_attendance_percentage = py_round2 attendance_percentage,
          es_average_rating = float_if_truthy (sql_avg (map f_rating feedback_rows)),
          es_total_feedback = length feedback_rows\<rparr>)"

definition get_event_stats :: "Session \<Rightarrow> int \<Rightarrow> error + EventStats" where
  "get_event_stats db event_id =
     (case find (\<lambda>e. e_id e = event_id) (events db) of
        None \<Rightarrow> Inl (raise_HTTPException 404 ''Event not found'')
      | Some event \<Rightarrow> Inr (event_stats_of db event))"

text \<open>The filters of the report queries: \<^verbatim>\<open>if college_id:\<close> skips \<^verbatim>\<open>None\<close> and
  \<^verbatim>\<open>0\<close>; a member of \<^verbatim>\<open>EventType\<close> is a non-empty string, so always true.\<close>

definition college_filter :: "int option \<Rightarrow> int \<Rightarrow> bool" where
  "college_filter college_id c =
     (case college_id of None \<Rightarrow> True | Some k \<Rightarrow> if k = 0 then True else c = k)"

definition event_type_filter :: "EventType option \<Rightarrow> EventType option \<Rightarrow> bool" where
  "event_type_filter event_type t =
     (case event_type of None \<Rightarrow> True | Some k \<Rightarrow> t = Some k)"

definition date_from_filter :: "datetime option \<Rightarrow> datetime \<Rightarrow> bool" where
  "date_from_filter start_date d = (case start_date of None \<Rightarrow> True | Some k \<Rightarrow> k \<le> d)"

definition date_to_filter :: "datetime option \<Rightarrow> datetime \<Rightarrow> bool" where
  "date_to_filter end_date d = (case end_date of None \<Rightarrow> True | Some k \<Rightarrow> d \<le> k)"

text \<open>The loop body of \<^verbatim>\<open>get_event_participation_report\<close>, for an event and the college
  the join pairs it with.\<close>

definition participation_row :: "Session \<Rightarrow> Event \<Rightarrow> College \<Rightarrow> EventParticipationReport" where
  "participation_row db event college =
     (let total_registrations = count_registered db (e_id event);
          attendance_count = count_present_event db (e_id event);
          feedback_rows = feedback_of_event db (e_id event);
          attendance_percentage = percentage attendance_count total_registrations;
          capacity_utilization =
            (case e_max_capacity event of
               None \<Rightarrow> None
             | Some max_capacity \<Rightarrow>
                 if max_capacity \<noteq> 0
                 then Some (float_mul (int_truediv (int total_registrations) max_capacity) 100)
                 else None)
      in \<lparr>ep_event_id = e_id event,
          ep_event_title = e_title event,
          ep_event_type = (case e_event_type event of None \<Rightarrow> OTHER | Some t \<Rightarrow> t),
          ep_college_name = c_name college,
          ep_start_date = e_start_date event,
          ep_total_registrations = total_registrations,
          ep_attendance_count = attendance_count,
          ep_attendance_percentage = py_round2 attendance_percentage,
          ep_average_rating = float_if_truthy (sql_avg (map f_rating feedback_rows)),
          ep_feedback_count = length feedback_rows,
          ep_capacity_utilization =
            (case capacity_utilization of
               None \<Rightarrow> None
             | Some u \<Rightarrow> if u = 0 then None else Some (py_round2 u))\<rparr>)"

text \<open>\<^verbatim>\<open>db.query(Event).join(College)\<close> with the four optional filters: the events that
  have a college, each with that college.\<close>

definition participation_query ::
  "Session \<Rightarrow> int option \<Rightarrow> EventType option \<Rightarrow> datetime option \<Rightarrow> datetime option
     \<Rightarrow> (Event \<times> College) list" where
  "participation_query db college_id event_type start_date end_date =
     concat (map (\<lambda>e. case find (\<lambda>c. c_id c = e_college_id e) (colleges db) of
                         None \<Rightarrow> []
                       | Some c \<Rightarrow> [(e, c)])
               (filter (\<lambda>e. college_filter college_id (e_college_id e)
                            \<and> event_type_filter event_type (e_event_type e)
                            \<and> date_from_filter start_date (e_start_date e)
                            \<and> date_to_filter end_date (e_start_date e))
                  (events db)))"

definition get_event_participation_report ::
  "Session \<Rightarrow> int option \<Rightarrow> EventType option \<Rightarrow> datetime option \<Rightarrow> datetime option
     \<Rightarrow> EventParticipationReport list" where
  "get_event_participation_report db college_id event_type start_date end_date =
     sorted_reverse ep_total_registrations
       (map (\<lambda>(e, c). participation_row db e c)
          (participation_query db college_id event_type start_date end_date))"

text \<open>The loop body of \<^verbatim>\<open>get_top_students_report\<close>. Without a mean rating the score is
  the integer \<^verbatim>\<open>total_attendance\<close>, which \<^verbatim>\<open>round(participation_score, 2)\<close> returns as
  it is and the response model converts to a float; with one it is the float
  \<^verbatim>\<open>total_attendance + float(avg_rating) * 0.5\<close>, rounded.\<close>

definition count_present_student :: "Session \<Rightarrow> int \<Rightarrow> nat" where
  "count_present_student db student_id =
     length (filter (\<lambda>a. a_student_id a = student_id \<and> a_attendance_status a = PRESENT)
               (attendance db))"

definition avg_rating_given :: "Session \<Rightarrow> int \<Rightarrow> rat option" where
  "avg_rating_given db student_id =
     sql_avg (map f_rating (filter (\<lambda>f. f_student_id f = student_id) (event_feedback db)))"

definition top_student_row :: "Session \<Rightarrow> Student \<Rightarrow> College \<Rightarrow> TopStudentsReport" where
  "top_student_row db student college =
     (let total_attendance = count_present_student db (s_id student);
          avg_rating = avg_rating_given db (s_id student);
          participation_score =
            (case float_if_truthy avg_rating of
               None \<Rightarrow> float_of_int (int total_attendance)
             | Some v \<Rightarrow>
                 py_round2 (float_add (float_of_int (int total_attendance)) (float_mul v (1 / 2))))
      in \<lparr>ts_student_id = s_id student,
          ts_student_name = s_first_name student @ '' '' @ s_last_name student,
          ts_college_name = c_name college,
          ts_participation_score = participation_score,
          ts_total_events_attended = total_attendance,
          ts_average_rating_given = float_if_truthy avg_rating\<rparr>)"

definition top_students_query :: "Session \<Rightarrow> int option \<Rightarrow> (Student \<times> College) list" where
  "top_students_query db college_id =
     concat (map (\<lambda>s. case find (\<lambda>c. c_id c = s_college_id s) (colleges db) of
                         None \<Rightarrow> []
                       | Some c \<Rightarrow> [(s, c)])
               (filter (\<lambda>s. college_filter college_id (s_college_id s)) (students db)))"

definition get_top_students_report ::
  "Session \<Rightarrow> int option \<Rightarrow> int \<Rightarrow> TopStudentsReport list" where
  "get_top_students_report db college_id limit =
     slice_to limit
       (sorted_reverse ts_participation_score
          (map (\<lambda>(s, c). top_student_row db s c) (top_students_query db college_id)))"

definition popularity_query :: "Session \<Rightarrow> int option \<Rightarrow> EventType option \<Rightarrow> Event list" where
  "popularity_query db college_id event_type =
     filter (\<lambda>e. college_filter college_id (e_college_id e)
                 \<and> event_type_filter event_type (e_event_type e))
       (events db)"

definition get_event_popularity_report ::
  "Session \<Rightarrow> int option \<Rightarrow> EventType option \<Rightarrow> int \<Rightarrow> EventStats list" where
  "get_event_popularity_report db college_id event_type limit =
     slice_to limit
       (sorted_reverse es_total_registrations
          (map (event_stats_of db) (popularity_query db college_id event_type)))"

subsection \<open>Sequences of lifecycle operations\<close>

datatype command =
  Register EventRegistrationCreate datetime
  | CancelRegistration int
  | MarkAttendance AttendanceCreate datetime
  | SubmitFeedback EventFeedbackCreate datetime

fun step :: "Session \<Rightarrow> command \<Rightarrow> Session" where
  "step db (Register registration utcnow) = snd (register_student db registration utcnow)"
| "step db (CancelRegistration registration_id) = snd (cancel_registration db registration_id)"
| "step db (MarkAttendance att utcnow) = snd (mark_attendance db att utcnow)"
| "step db (SubmitFeedback fb utcnow) = snd (submit_feedback db fb utcnow)"

definition run :: "Session \<Rightarrow> command list \<Rightarrow> Session" where
  "run db cs = foldl step db cs"

subsection \<open>Invariants of the store\<close>

text \<open>\<^verbatim>\<open>UniqueConstraint('student_id', 'event_id', name='unique_registration')\<close>.\<close>

definition unique_registration :: "Session \<Rightarrow> bool" where
  "unique_registration db =
     distinct (map (\<lambda>r. (r_student_id r, r_event_id r)) (event_registrations db))"

text \<open>The rows of a pair that are not cancelled.\<close>

definition active_registrations :: "Session \<Rightarrow> int \<Rightarrow> int \<Rightarrow> EventRegistration list" where
  "active_registrations db student_id event_id =
     filter (\<lambda>r. r_student_id r = student_id \<and> r_event_id r = event_id \<and> r_status r \<noteq> CANCELLED)
       (event_registrations db)"

text \<open>The rows a call moved from waitlisted to registered: the rows of the table before
  the call, each paired with the row at its place after it.\<close>

definition promotions :: "Session \<Rightarrow> Session \<Rightarrow> EventRegistration list" where
  "promotions db db' =
     map fst (filter (\<lambda>(old, new). r_status old = WAITLISTED \<and> r_status new = REGISTERED)
                (zip (event_registrations db) (event_registrations db')))"

subsection \<open>The participation score in the words of the specification\<close>

text \<open>The attendance count of the student plus half the mean of the ratings the student
  gave, a student without feedback contributing 0 for the mean, rounded to 2 decimal
  places; the mean, the product, the sum and the rounding are those of doubles. It is
  compared with the score \<open>top_student_row\<close> computes.\<close>

definition participation_score_spec :: "Session \<Rightarrow> int \<Rightarrow> rat" where
  "participation_score_spec db student_id =
     (let attendance_count =
            length (filter (\<lambda>a. a_student_id a = student_id \<and> a_attendance_status a = PRESENT)
                      (attendance db));
          ratings = map f_rating (filter (\<lambda>f. f_student_id f = student_id) (event_feedback db));
          mean_rating =
            (if ratings = [] then 0
             else float_div (float_of_int (sum_list ratings)) (float_of_int (int (length ratings))))
      in py_round2 (float_add (float_of_int (int attendance_count)) (float_mul (1 / 2) mean_rating)))"

subsection \<open>Example stores\<close>

definition example_college :: College where
  "example_college = \<lparr>c_id = 1, c_name = ''MIT''\<rparr>"

definition example_student :: "int \<Rightarrow> Student" where
  "example_student k =
     \<lparr>s_id = k, s_first_name = ''John'', s_last_name = ''Doe'', s_college_id = 1\<rparr>"

definition example_event :: "int \<Rightarrow> int option \<Rightarrow> Event" where
  "example_event k max_capacity =
     \<lparr>e_id = k, e_title = ''AI Workshop'', e_event_type = Some WORKSHOP, e_college_id = 1,
      e_start_date = 100, e_max_capacity = max_capacity, e_is_cancelled = False\<rparr>"

definition example_registration ::
  "int \<Rightarrow> int \<Rightarrow> int \<Rightarrow> datetime \<Rightarrow> RegistrationStatus \<Rightarrow> EventRegistration" where
  "example_registration k student_id event_id t st =
     \<lparr>r_id = k, r_student_id = student_id, r_event_id = event_id, r_registration_date = t,
      r_status = st\<rparr>"

definition example_attendance :: "int \<Rightarrow> int \<Rightarrow> int \<Rightarrow> AttendanceStatus \<Rightarrow> Attendance" where
  "example_attendance k student_id event_id st =
     \<lparr>a_id = k, a_student_id = student_id, a_event_id = event_id, a_check_in_time = 120,
      a_check_out_time = None, a_attendance_status = st\<rparr>"

definition example_feedback :: "int \<Rightarrow> int \<Rightarrow> int \<Rightarrow> int \<Rightarrow> EventFeedback" where
  "example_feedback k student_id event_id rating =
     \<lparr>f_id = k, f_student_id = student_id, f_event_id = event_id, f_rating = rating,
      f_feedback_text = None, f_submitted_at = 130\<rparr>"

definition example_store :: "Event list \<Rightarrow> EventRegistration list \<Rightarrow> Session" where
  "example_store es rs =
     \<lparr>colleges = [example_college],
      students = [example_student 1, example_student 2, example_student 3],
      events = es, event_registrations = rs, attendance = [], event_feedback = []\<rparr>"

text \<open>Two events: event 1 with three registered students, of whom one was present, one
  late and one absent; event 2 with one cancelled registration and nothing else.\<close>

definition example_stats_store :: Session where
  "example_stats_store =
     (example_store [example_event 1 None, example_event 2 None]
        [example_registration 1 1 1 5 REGISTERED, example_registration 2 2 1 6 REGISTERED,
         example_registration 3 3 1 7 REGISTERED, example_registration 4 1 2 8 CANCELLED])
     \<lparr>attendance := [example_attendance 1 1 1 PRESENT, example_attendance 2 2 1 LATE,
                     example_attendance 3 3 1 ABSENT]\<rparr>"

text \<open>Event 1 with a cancelled row of student 1 and a waitlisted row of student 2.\<close>

definition example_reopen_store :: Session where
  "example_reopen_store =
     example_store [example_event 1 (Some 2)]
       [example_registration 1 1 1 5 CANCELLED, example_registration 2 2 1 6 WAITLISTED]"

text \<open>Event 1 of capacity 1: student 1 registered, students 2 and 3 waitlisted, student 3
  with the earlier timestamp.\<close>

definition example_waitlist_store :: Session where
  "example_waitlist_store =
     example_store [example_event 1 (Some 1)]
       [example_registration 1 1 1 5 REGISTERED, example_registration 2 2 1 7 WAITLISTED,
        example_registration 3 3 1 6 WAITLISTED]"

text \<open>Three events with 10, 7 and 7 registered students.\<close>

definition example_popularity_store :: Session where
  "example_popularity_store =
     \<lparr>colleges = [example_college],
      students = map example_student [1..10],
      events = [example_event 1 None, example_event 2 None, example_event 3 None],
      event_registrations =
        map (\<lambda>k. example_registration k k 1 k REGISTERED) [1..10]
        @ map (\<lambda>k. example_registration (10 + k) k 2 (10 + k) REGISTERED) [1..7]
        @ map (\<lambda>k. example_registration (17 + k) k 3 (17 + k) REGISTERED) [1..7],
      attendance = [], event_feedback = []\<rparr>"

text \<open>Student 1 was present at two events and rated them 4 and 5; students 2 and 3 were
  present at one event each and gave no feedback.\<close>

definition example_ranking_store :: Session where
  "example_ranking_store =
     (example_store [example_event 1 None, example_event 2 None] [])
     \<lparr>attendance := [example_attendance 1 1 1 PRESENT, example_attendance 2 1 2 PRESENT,
                     example_attendance 3 2 1 PRESENT, example_attendance 4 3 1 PRESENT],
      event_feedback := [example_feedback 1 1 1 4, example_feedback 2 1 2 5]\<rparr>"

text \<open>Event 1 with 160 registered students, of whom 23 were present.\<close>

definition example_rounding_store :: Session where
  "example_rounding_store =
     \<lparr>colleges = [example_college],
      students = map example_student [1..160],
      events = [example_event 1 None],
      event_registrations = map (\<lambda>k. example_registration k k 1 k REGISTERED) [1..160],
      attendance = map (\<lambda>k. example_attendance k k 1 PRESENT) [1..23],
      event_feedback = []\<rparr>"

text \<open>Two colleges. Event 1 is a workshop of college 1 with one registered student,
  event 2 a seminar of college 2 with two, event 3 a seminar of college 1 with three.
  Students 1 and 2 are of college 1, student 3 of college 2, student 4 of a college
  that has no row. Student 1 was present once, student 2 once, with one rating of 3,
  student 3 twice.\<close>

definition example_student_of :: "int \<Rightarrow> int \<Rightarrow> Student" where
  "example_student_of k college_id =
     \<lparr>s_id = k, s_first_name = ''Jane'', s_last_name = ''Roe'', s_college_id = college_id\<rparr>"

definition example_event_of :: "int \<Rightarrow> int \<Rightarrow> EventType \<Rightarrow> Event" where
  "example_event_of k college_id event_type =
     \<lparr>e_id = k, e_title = ''Open Day'', e_event_type = Some event_type,
      e_college_id = college_id, e_start_date = 100, e_max_capacity = None,
      e_is_cancelled = False\<rparr>"

definition example_filter_store :: Session where
  "example_filter_store =
     \<lparr>colleges = [example_college, \<lparr>c_id = 2, c_name = ''Stanford''\<rparr>],
      students = [example_student_of 1 1, example_student_of 2 1, example_student_of 3 2,
                  example_student_of 4 9],
      events = [example_event_of 1 1 WORKSHOP, example_event_of 2 2 SEMINAR,
                example_event_of 3 1 SEMINAR],
      event_registrations =
        [example_registration 1 1 1 1 REGISTERED,
         example_registration 2 1 2 2 REGISTERED, example_registration 3 3 2 3 REGISTERED,
         example_registration 4 1 3 4 REGISTERED, example_registration 5 2 3 5 REGISTERED,
         example_registration 6 3 3 6 REGISTERED],
      attendance =
        [example_attendance 1 3 2 PRESENT, example_attendance 2 1 3 PRESENT,
         example_attendance 3 2 3 PRESENT, example_attendance 4 3 3 PRESENT],
      event_feedback = [example_feedback 1 2 3 3]\<rparr>"

text \<open>Twenty-five events. Student 1 was late at the first twenty and rated seventeen of
  them 3 and three of them 4, a mean of 63/20; student 2 was late at all of them and
  rated twenty-one of them 3 and four of them 4, a mean of 79/25.\<close>

definition example_mean_store :: Session where
  "example_mean_store =
     \<lparr>colleges = [example_college],
      students = [example_student 1, example_student 2],
      events = map (\<lambda>k. example_event k None) [1..25],
      event_registrations =
        map (\<lambda>k. example_registration k 1 k k REGISTERED) [1..20]
        @ map (\<lambda>k. example_registration (20 + k) 2 k (20 + k) REGISTERED) [1..25],
      attendance =
        map (\<lambda>k. example_attendance k 1 k LATE) [1..20]
        @ map (\<lambda>k. example_attendance (20 + k) 2 k LATE) [1..25],
      event_feedback =
        map (\<lambda>k. example_feedback k 1 k (if k \<le> 17 then 3 else 4)) [1..20]
        @ map (\<lambda>k. example_feedback (20 + k) 2 k (if k \<le> 21 then 3 else 4)) [1..25]\<rparr>"

section \<open>Lookups\<close>

lemma find_if_list_ex: "list_ex P xs \<Longrightarrow> \<exists>x. find P xs = Some x \<and> P x \<and> x \<in> set xs"
  by (induction xs) auto

lemma find_if_not_list_ex: "\<not> list_ex P xs \<Longrightarrow> find P xs = None"
  by (induction xs) auto

section \<open>Capacity\<close>

text \<open>The insert of a new row keeps the registered count of the event within its
  capacity, when the capacity is set and not 0.\<close>

lemma create_registration_within_capacity:
  assumes "e_max_capacity event = Some c" "c \<noteq> 0"
  shows "count_registered (snd (create_registration db registration event utcnow))
           (rc_event_id registration)
         \<le> max (count_registered db (rc_event_id registration)) (nat c)"
  using assms
  by (auto simp: create_registration_def add_registration_def Let_def count_registered_def)

text \<open>
  Claim C1: for an event with maximum capacity C, after any sequence of register and
  cancelRegistration operations that starts from a store with at most C registered rows
  for the event, the number of rows of the event in status registered never exceeds C.

  The code does not keep this bound. The branch of \<^verbatim>\<open>register_student\<close> that reopens a
  cancelled row sets it to registered without the capacity check its sibling branch (the
  insert of a new row) makes. On an event of capacity 1: student 1 registers and cancels,
  student 2 registers and takes the seat, student 1 registers again; both rows are then
  registered. The second run shows the other path past the bound: with student 1
  registered and students 2 and 3 waitlisted, cancelling the waitlisted row of student 2
  promotes student 3 although no seat was freed.
\<close>

theorem C1_registered_count_exceeds_capacity:
  "e_max_capacity (example_event 1 (Some 1)) = Some 1
   \<and> count_registered (example_store [example_event 1 (Some 1)] []) 1 = 0
   \<and> count_registered
        (run (example_store [example_event 1 (Some 1)] [])
           [Register \<lparr>rc_student_id = 1, rc_event_id = 1, rc_status = REGISTERED\<rparr> 1,
            CancelRegistration 1,
            Register \<lparr>rc_student_id = 2, rc_event_id = 1, rc_status = REGISTERED\<rparr> 2,
            Register \<lparr>rc_student_id = 1, rc_event_id = 1, rc_status = REGISTERED\<rparr> 3]) 1 = 2
   \<and> count_registered
        (run (example_store [example_event 1 (Some 1)] [])
           [Register \<lparr>rc_student_id = 1, rc_event_id = 1, rc_status = REGISTERED\<rparr> 1,
            Register \<lparr>rc_student_id = 2, rc_event_id = 1, rc_status = REGISTERED\<rparr> 2,
            Register \<lparr>rc_student_id = 3, rc_event_id = 1, rc_status = REGISTERED\<rparr> 3,
            CancelRegistration 2]) 1 = 2"
  by code_simp

section \<open>Capacity utilization of the participation report\<close>

text \<open>The utilization the report shows for an event: absent without a capacity, with the
  capacity 0 and with no registered row; the rounded product otherwise, unless that
  product is the double 0.\<close>

lemma participation_row_capacity_utilization:
  "ep_capacity_utilization (participation_row db event college)
   = (case e_max_capacity event of
        None \<Rightarrow> None
      | Some c \<Rightarrow>
          if c = 0 \<or> count_registered db (e_id event) = 0
             \<or> float_mul (int_truediv (int (count_registered db (e_id event))) c) 100 = 0
          then None
          else Some (py_round2
                       (float_mul (int_truediv (int (count_registered db (e_id event))) c) 100)))"
proof -
  have z: "float_mul (int_truediv 0 c) 100 = 0" for c
    by (simp add: float_mul_def int_truediv_def fl_def)
  show ?thesis
    by (cases "count_registered db (e_id event) = 0")
       (auto simp: participation_row_def Let_def z split: option.splits)
qed

text \<open>
  Claim C4: in the participation report the capacity utilization of an event equals
  registrations / maxCapacity * 100 rounded to 2 decimal places whenever the event
  defines a maximum capacity, also when the registration count is 0, and is absent
  exactly when the event defines no maximum capacity.

  The code computes the quotient under \<^verbatim>\<open>if event.max_capacity\<close> and then rounds it under
  \<^verbatim>\<open>if capacity_utilization\<close>: the guard meant for \<^verbatim>\<open>None\<close> also catches the quotient
  0.0. An event of capacity 10 with no registration is reported with no utilization
  instead of 0; with one registration the same event is reported with 10.
\<close>

theorem C4_utilization_absent_at_zero_registrations:
  "e_max_capacity (example_event 1 (Some 10)) = Some 10
   \<and> map ep_total_registrations
        (get_event_participation_report (example_store [example_event 1 (Some 10)] [])
           None None None None) = [0]
   \<and> map ep_capacity_utilization
        (get_event_participation_report (example_store [example_event 1 (Some 10)] [])
           None None None None) = [None]
   \<and> map ep_capacity_utilization
        (get_event_participation_report
           (example_store [example_event 1 (Some 10)] [example_registration 1 1 1 5 REGISTERED])
           None None None None) = [Some 10]"
  by code_simp

section \<open>Attendance\<close>

text \<open>The precondition check of \<^verbatim>\<open>mark_attendance\<close> for an existing student and event: without a
  registered row the call raises and stores nothing; with one, and no attendance row
  yet, it appends the new attendance row.\<close>

lemma mark_attendance_gate:
  assumes "list_ex (\<lambda>s. s_id s = ac_student_id att) (students db)"
    and "list_ex (\<lambda>e. e_id e = ac_event_id att) (events db)"
  shows "(\<not> list_ex (\<lambda>r. r_student_id r = ac_student_id att \<and> r_event_id r = ac_event_id att
                        \<and> r_status r = REGISTERED) (event_registrations db)
          \<longrightarrow> mark_attendance db att utcnow
                = (Inl (raise_HTTPException 400 ''Student is not registered for this event''), db))
       \<and> (list_ex (\<lambda>r. r_student_id r = ac_student_id att \<and> r_event_id r = ac_event_id att
                        \<and> r_status r = REGISTERED) (event_registrations db)
          \<and> \<not> list_ex (\<lambda>a. a_student_id a = ac_student_id att \<and> a_event_id a = ac_event_id att)
                 (attendance db)
          \<longrightarrow> (\<exists>row. mark_attendance db att utcnow
                        = (Inr row, db\<lparr>attendance := attendance db @ [row]\<rparr>)
                     \<and> a_student_id row = ac_student_id att \<and> a_event_id row = ac_event_id att
                     \<and> a_attendance_status row = ac_attendance_status att
                     \<and> a_check_in_time row = utcnow))"
proof -
  from assms(1) obtain s where s: "find (\<lambda>s. s_id s = ac_student_id att) (students db) = Some s"
    using find_if_list_ex by blast
  from assms(2) obtain e where e: "find (\<lambda>e. e_id e = ac_event_id att) (events db) = Some e"
    using find_if_list_ex by blast
  show ?thesis
  proof (intro conjI impI)
    assume "\<not> list_ex (\<lambda>r. r_student_id r = ac_student_id att \<and> r_event_id r = ac_event_id att
                        \<and> r_status r = REGISTERED) (event_registrations db)"
    then have "find (\<lambda>r. r_student_id r = ac_student_id att \<and> r_event_id r = ac_event_id att
                        \<and> r_status r = REGISTERED) (event_registrations db) = None"
      by (rule find_if_not_list_ex)
    then show "mark_attendance db att utcnow
                = (Inl (raise_HTTPException 400 ''Student is not registered for this event''), db)"
      by (simp add: mark_attendance_def s e)
  next
    assume a: "list_ex (\<lambda>r. r_student_id r = ac_student_id att \<and> r_event_id r = ac_event_id att
                        \<and> r_status r = REGISTERED) (event_registrations db)
          \<and> \<not> list_ex (\<lambda>a. a_student_id a = ac_student_id att \<and> a_event_id a = ac_event_id att)
                 (attendance db)"
    then obtain r where r: "find (\<lambda>r. r_student_id r = ac_student_id att \<and> r_event_id r = ac_event_id att
                        \<and> r_status r = REGISTERED) (event_registrations db) = Some r"
      using find_if_list_ex[of "\<lambda>r. r_student_id r = ac_student_id att \<and> r_event_id r = ac_event_id att
                        \<and> r_status r = REGISTERED"] by blast
    from a have n: "\<not> list_ex (\<lambda>a. a_student_id a = ac_student_id att \<and> a_event_id a = ac_event_id att)
                 (attendance db)" by simp
    then have f: "find (\<lambda>a. a_student_id a = ac_student_id att \<and> a_event_id a = ac_event_id att)
                 (attendance db) = None"
      by (rule find_if_not_list_ex)
    show "\<exists>row. mark_attendance db att utcnow
                        = (Inr row, db\<lparr>attendance := attendance db @ [row]\<rparr>)
                     \<and> a_student_id row = ac_student_id att \<and> a_event_id row = ac_event_id att
                     \<and> a_attendance_status row = ac_attendance_status att
                     \<and> a_check_in_time row = utcnow"
      using n by (simp add: mark_attendance_def s e r f add_attendance_def Let_def)
  qed
qed

text \<open>
  Claim C6: for an existing student and event, markAttendance fails with InvalidState
  and creates no attendance row whenever the pair has no row in status registered, even
  if it has a cancelled or waitlisted one; with a registered row and no attendance row
  yet, it creates the attendance row.

  The statement the code reaches is
  \<^verbatim>\<open>raise HTTPException(status_code=status.HTTP_400_BAD_REQUEST, ...)\<close>, and neither name
  is bound in \<^verbatim>\<open>services.py\<close>: the call ends in a \<^verbatim>\<open>NameError\<close>, not in the HTTP 400 the
  statement spells out. The store is left as it was. Here student 1 holds a waitlisted
  row for event 1.
\<close>

theorem C6_mark_attendance_unregistered_raises_NameError:
  "mark_attendance
     (example_store [example_event 1 None] [example_registration 1 1 1 5 WAITLISTED])
     \<lparr>ac_student_id = 1, ac_event_id = 1, ac_attendance_status = PRESENT,
      ac_check_out_time = None\<rparr> 50
   = (Inl (NameError ''HTTPException''),
      example_store [example_event 1 None] [example_registration 1 1 1 5 WAITLISTED])
   \<and> fst (mark_attendance
        (example_store [example_event 1 None] [example_registration 1 1 1 5 WAITLISTED])
        \<lparr>ac_student_id = 1, ac_event_id = 1, ac_attendance_status = PRESENT,
         ac_check_out_time = None\<rparr> 50)
     \<noteq> Inl (HTTPException 400 ''Student is not registered for this event'')"
  by code_simp

section \<open>Feedback\<close>

text \<open>
  Claim C7: submitFeedback fails with a validation error for rating 0 and for rating 6,
  before any feedback row is created and before any other precondition is looked at; it
  succeeds, creating exactly one feedback row, for rating 1 and for rating 5 when the
  student and the event exist, the pair has an attendance row of any status and has no
  feedback row yet.

  The theorem covers every rating: below 1 or above 5 the request is refused by the
  validator of \<^verbatim>\<open>EventFeedbackCreate\<close> whatever the store holds, and the store is
  unchanged; from 1 to 5, under the preconditions, the store after the call is the store
  before it with the returned row appended to the feedback table.
\<close>

theorem C7_submit_feedback_rating_range:
  "(rating < 1 \<or> 5 < rating \<longrightarrow>
      post_feedback db student_id event_id rating feedback_text utcnow
        = (Inl (ValidationError ''Rating must be between 1 and 5''), db))
   \<and> (1 \<le> rating \<and> rating \<le> 5
        \<and> list_ex (\<lambda>s. s_id s = student_id) (students db)
        \<and> list_ex (\<lambda>e. e_id e = event_id) (events db)
        \<and> list_ex (\<lambda>a. a_student_id a = student_id \<and> a_event_id a = event_id) (attendance db)
        \<and> \<not> list_ex (\<lambda>f. f_student_id f = student_id \<and> f_event_id f = event_id)
               (event_feedback db) \<longrightarrow>
      (\<exists>row. post_feedback db student_id event_id rating feedback_text utcnow
               = (Inr row, db\<lparr>event_feedback := event_feedback db @ [row]\<rparr>)
            \<and> f_student_id row = student_id \<and> f_event_id row = event_id
            \<and> f_rating row = rating \<and> f_feedback_text row = feedback_text))"
proof (intro conjI impI)
  assume "rating < 1 \<or> 5 < rating"
  then show "post_feedback db student_id event_id rating feedback_text utcnow
        = (Inl (ValidationError ''Rating must be between 1 and 5''), db)"
    by (auto simp: post_feedback_def parse_EventFeedbackCreate_def validate_rating_def)
next
  assume a: "1 \<le> rating \<and> rating \<le> 5
        \<and> list_ex (\<lambda>s. s_id s = student_id) (students db)
        \<and> list_ex (\<lambda>e. e_id e = event_id) (events db)
        \<and> list_ex (\<lambda>a. a_student_id a = student_id \<and> a_event_id a = event_id) (attendance db)
        \<and> \<not> list_ex (\<lambda>f. f_student_id f = student_id \<and> f_event_id f = event_id)
               (event_feedback db)"
  let ?fb = "\<lparr>fc_student_id = student_id, fc_event_id = event_id, fc_rating = rating,
             fc_feedback_text = feedback_text\<rparr>"
  from a have p: "parse_EventFeedbackCreate student_id event_id rating feedback_text = Inr ?fb"
    by (simp add: parse_EventFeedbackCreate_def validate_rating_def)
  from a obtain s where s: "find (\<lambda>s. s_id s = student_id) (students db) = Some s"
    using find_if_list_ex by blast
  from a obtain e where e: "find (\<lambda>e. e_id e = event_id) (events db) = Some e"
    using find_if_list_ex by blast
  from a obtain att where att:
    "find (\<lambda>a. a_student_id a = student_id \<and> a_event_id a = event_id) (attendance db) = Some att"
    using find_if_list_ex[of "\<lambda>a. a_student_id a = student_id \<and> a_event_id a = event_id"]
    by blast
  from a have nf: "\<not> list_ex (\<lambda>f. f_student_id f = student_id \<and> f_event_id f = event_id)
                      (event_feedback db)"
    by simp
  then have f:
    "find (\<lambda>f. f_student_id f = student_id \<and> f_event_id f = event_id) (event_feedback db) = None"
    using find_if_not_list_ex by blast
  show "\<exists>row. post_feedback db student_id event_id rating feedback_text utcnow
               = (Inr row, db\<lparr>event_feedback := event_feedback db @ [row]\<rparr>)
            \<and> f_student_id row = student_id \<and> f_event_id row = event_id
            \<and> f_rating row = rating \<and> f_feedback_text row = feedback_text"
    using nf by (simp add: post_feedback_def p submit_feedback_def s e att f add_feedback_def Let_def)
qed

theorem C7_submit_feedback_rating_range_witness:
  "post_feedback (example_store [] []) 1 1 0 None 130
     = (Inl (ValidationError ''Rating must be between 1 and 5''), example_store [] [])
   \<and> post_feedback (example_store [] []) 1 1 6 None 130
     = (Inl (ValidationError ''Rating must be between 1 and 5''), example_store [] [])
   \<and> length (event_feedback (snd (post_feedback
        ((example_store [example_event 1 None] [])
           \<lparr>attendance := [example_attendance 1 1 1 LATE]\<rparr>) 1 1 1 None 130))) = 1
   \<and> length (event_feedback (snd (post_feedback
        ((example_store [example_event 1 None] [])
           \<lparr>attendance := [example_attendance 1 1 1 LATE]\<rparr>) 1 1 5 None 130))) = 1"
  using C7_submit_feedback_rating_range[of 0 "example_store [] []" 1 1 None 130]
    C7_submit_feedback_rating_range[of 6 "example_store [] []" 1 1 None 130]
    C7_submit_feedback_rating_range[of 1 "(example_store [example_event 1 None] [])
           \<lparr>attendance := [example_attendance 1 1 1 LATE]\<rparr>" 1 1 None 130]
    C7_submit_feedback_rating_range[of 5 "(example_store [example_event 1 None] [])
           \<lparr>attendance := [example_attendance 1 1 1 LATE]\<rparr>" 1 1 None 130]
  by (auto simp: example_store_def example_student_def example_event_def example_attendance_def)

section \<open>Rounding\<close>

text \<open>Rounding to an integer is exact on integers, stays within one half, is monotone
  and odd.\<close>

lemma rhe_of_int [simp]: "round_half_even (of_int k) = k"
  by (simp add: round_half_even_def)

lemma rhe_near: "\<bar>of_int (round_half_even y) - y\<bar> \<le> 1 / 2"
proof -
  define f where "f = \<lfloor>y\<rfloor>"
  define d where "d = y - of_int f"
  have d: "0 \<le> d" "d < 1"
    unfolding d_def f_def by linarith+
  have y: "y = of_int f + d"
    unfolding d_def by simp
  show ?thesis
    unfolding round_half_even_def Let_def f_def[symmetric] d_def[symmetric]
    using d by (auto simp: y abs_if)
qed

lemma rhe_le: "y \<le> of_int k \<Longrightarrow> round_half_even y \<le> k"
proof -
  assume a: "y \<le> of_int k"
  show ?thesis
  proof (cases "y = of_int k")
    case True then show ?thesis by simp
  next
    case False
    with a have "y < of_int k" by simp
    then have "\<lfloor>y\<rfloor> < k" by (simp add: floor_less_iff)
    then have "\<lfloor>y\<rfloor> + 1 \<le> k" by simp
    then show ?thesis by (auto simp: round_half_even_def Let_def)
  qed
qed

lemma rhe_ge: "of_int k \<le> y \<Longrightarrow> k \<le> round_half_even y"
proof -
  assume "of_int k \<le> y"
  then have "k \<le> \<lfloor>y\<rfloor>" by (simp add: le_floor_iff)
  then show ?thesis by (auto simp: round_half_even_def Let_def)
qed

lemma ilog2_bounds:
  assumes "0 < x"
  shows "2 powi ilog2 x \<le> x \<and> x < 2 powi (ilog2 x + 1)"
proof -
  obtain p q where pq: "quotient_of x = (p, q)" by (cases "quotient_of x")
  then have q: "0 < q" and x: "x = of_int p / of_int q"
    using quotient_of_denom_pos quotient_of_div by auto
  with assms have p: "0 < p"
    by (simp add: zero_less_divide_iff)
  let ?bp = "bitlen p" and ?bq = "bitlen q"
  have bp: "1 \<le> ?bp" "1 \<le> ?bq" using p q by (auto simp: bitlen_alt_def)
  have pb: "(2::rat) powi (?bp - 1) \<le> of_int p" "of_int p < (2::rat) powi ?bp"
  proof -
    from bitlen_bounds[OF p] have "2 ^ nat (?bp - 1) \<le> p" "p < 2 ^ nat ?bp" by auto
    then have "(of_int (2 ^ nat (?bp - 1)) :: rat) \<le> of_int p" "(of_int p :: rat) < of_int (2 ^ nat ?bp)"
      by (simp_all only: of_int_le_iff of_int_less_iff)
    then show "(2::rat) powi (?bp - 1) \<le> of_int p" "of_int p < (2::rat) powi ?bp"
      using bp by (simp_all add: power_int_def)
  qed
  have qb: "(2::rat) powi (?bq - 1) \<le> of_int q" "of_int q < (2::rat) powi ?bq"
  proof -
    from bitlen_bounds[OF q] have "2 ^ nat (?bq - 1) \<le> q" "q < 2 ^ nat ?bq" by auto
    then have "(of_int (2 ^ nat (?bq - 1)) :: rat) \<le> of_int q" "(of_int q :: rat) < of_int (2 ^ nat ?bq)"
      by (simp_all only: of_int_le_iff of_int_less_iff)
    then show "(2::rat) powi (?bq - 1) \<le> of_int q" "of_int q < (2::rat) powi ?bq"
      using bp by (simp_all add: power_int_def)
  qed
  let ?d = "?bp - ?bq"
  have qpos: "(0::rat) < of_int q" using q by simp
  have lo: "(2::rat) powi (?d - 1) \<le> x"
  proof -
    have "(2::rat) powi (?d - 1) * of_int q \<le> 2 powi (?d - 1) * 2 powi ?bq"
      using qb(2) by (intro mult_left_mono) auto
    also have "\<dots> = 2 powi (?bp - 1)"
      by (simp flip: power_int_add)
    also have "\<dots> \<le> of_int p" by (rule pb(1))
    finally show ?thesis using qpos by (simp add: x pos_le_divide_eq)
  qed
  have hi: "x < (2::rat) powi (?d + 1)"
  proof -
    have "of_int p < (2::rat) powi ?bp" by (rule pb(2))
    also have "\<dots> = 2 powi (?d + 1) * 2 powi (?bq - 1)"
      by (simp flip: power_int_add)
    also have "\<dots> \<le> 2 powi (?d + 1) * of_int q"
      using qb(1) by (intro mult_left_mono) auto
    finally show ?thesis using qpos by (simp add: x pos_divide_less_eq)
  qed
  show ?thesis
  proof (cases "(2::rat) powi ?d \<le> x")
    case True
    then have "ilog2 x = ?d" by (simp add: ilog2_def pq Let_def)
    with True hi show ?thesis by simp
  next
    case False
    then have "ilog2 x = ?d - 1" by (simp add: ilog2_def pq Let_def)
    with False lo show ?thesis by simp
  qed
qed

lemma rhe_minus: "round_half_even (- y) = - round_half_even y"
proof (cases "y = of_int \<lfloor>y\<rfloor>")
  case True
  then obtain k where "y = of_int k" by metis
  then show ?thesis by (simp flip: of_int_minus)
next
  case False
  define f where "f = \<lfloor>y\<rfloor>"
  define d where "d = y - of_int f"
  have d: "0 < d" "d < 1"
    using False unfolding d_def f_def by linarith+
  have y: "y = of_int f + d"
    unfolding d_def by simp
  have fm: "\<lfloor>- y\<rfloor> = - f - 1"
    unfolding y using d by (simp add: floor_unique)
  show ?thesis
    unfolding round_half_even_def Let_def fm f_def[symmetric]
    using d by (auto simp: y)
qed

lemma powi_pos: "0 < (2::rat) powi e"
  by (simp add: power_int_def)

lemma powi_mono: "a \<le> b \<Longrightarrow> (2::rat) powi a \<le> 2 powi b"
  by (rule power_int_increasing) simp_all

lemma powi_int: "0 \<le> t \<Longrightarrow> (2::rat) powi t = of_int (2 ^ nat t)"
  by (simp add: power_int_def)

lemma ilog2_le:
  assumes "0 < x" "x \<le> 2 powi e"
  shows "ilog2 x \<le> e"
proof (rule ccontr)
  assume "\<not> ilog2 x \<le> e"
  then have "e + 1 \<le> ilog2 x" by simp
  then have "(2::rat) powi (e + 1) \<le> 2 powi ilog2 x" by (rule powi_mono)
  also have "\<dots> \<le> x" using ilog2_bounds[OF assms(1)] by simp
  finally have "(2::rat) powi (e + 1) \<le> 2 powi e" using assms(2) by simp
  moreover have "(2::rat) powi e < 2 powi (e + 1)"
    by (rule power_int_strict_increasing) simp_all
  ultimately show False by simp
qed

lemma fl_representable: "representable (fl x)"
proof (cases "x = 0")
  case True
  have "(0::rat) = of_int 0 * 2 powi 0 \<and> \<bar>0::int\<bar> \<le> 2 ^ 53 \<and> - 1074 \<le> (0::int)" by simp
  then show ?thesis unfolding representable_def fl_def using True by (auto intro: exI[of _ 0])
next
  case False
  define e where "e = max (ilog2 \<bar>x\<bar>) (- 1022)"
  define q where "q = (2::rat) powi (e - 52)"
  have flx: "fl x = of_int (round_half_even (x / q)) * q"
    using False by (simp add: fl_def Let_def e_def q_def)
  have qpos: "0 < q" unfolding q_def by (rule powi_pos)
  have ax: "0 < \<bar>x\<bar>" using False by simp
  have "\<bar>x\<bar> < 2 powi (ilog2 \<bar>x\<bar> + 1)" using ilog2_bounds[OF ax] by simp
  also have "\<dots> \<le> 2 powi (e + 1)" by (rule powi_mono) (simp add: e_def)
  also have "\<dots> = 2 powi 53 * q"
    unfolding q_def using power_int_add[of "2::rat" 53 "e - 52"] by (simp add: add.commute)
  finally have "\<bar>x\<bar> / q < 2 powi 53" using qpos by (simp add: pos_divide_less_eq)
  then have lt: "\<bar>x\<bar> / q < of_int (2 ^ 53)" by simp
  have u: "x / q \<le> \<bar>x\<bar> / q"
    by (rule divide_right_mono) (use qpos in simp_all)
  have l: "(- \<bar>x\<bar>) / q \<le> x / q"
    by (rule divide_right_mono) (use qpos in simp_all)
  have "x / q \<le> of_int (2 ^ 53)"
    using u lt by linarith
  moreover have "of_int (- (2 ^ 53)) \<le> x / q"
    using l lt by (simp only: minus_divide_left[symmetric] of_int_minus; linarith)
  ultimately have "round_half_even (x / q) \<le> 2 ^ 53" "- (2 ^ 53) \<le> round_half_even (x / q)"
    by (simp_all only: rhe_le rhe_ge)
  then have m: "\<bar>round_half_even (x / q)\<bar> \<le> 2 ^ 53" by simp
  have t: "- 1074 \<le> e - 52" by (simp add: e_def)
  have "fl x = of_int (round_half_even (x / q)) * 2 powi (e - 52)"
    unfolding flx q_def ..
  with m t show ?thesis
    unfolding representable_def by blast
qed

lemma fl_exact:
  assumes "representable y"
  shows "fl y = y"
proof (cases "y = 0")
  case True
  then show ?thesis by (simp add: fl_def)
next
  case False
  from assms obtain m t where y: "y = of_int m * 2 powi t" and m: "\<bar>m\<bar> \<le> 2 ^ 53" and t: "- 1074 \<le> t"
    unfolding representable_def by blast
  define e where "e = max (ilog2 \<bar>y\<bar>) (- 1022)"
  define q where "q = (2::rat) powi (e - 52)"
  have fly: "fl y = of_int (round_half_even (y / q)) * q"
    using False by (simp add: fl_def Let_def e_def q_def)
  have qpos: "0 < q" unfolding q_def by (rule powi_pos)
  have ay: "0 < \<bar>y\<bar>" using False by simp
  have "\<bar>y\<bar> = of_int \<bar>m\<bar> * 2 powi t"
    unfolding y by (simp add: abs_mult powi_pos less_imp_le)
  also have "\<dots> \<le> of_int (2 ^ 53) * 2 powi t"
    using m by (intro mult_right_mono) (simp_all only: of_int_le_iff, simp add: powi_pos less_imp_le)
  also have "\<dots> = 2 powi (53 + t)" by (simp add: power_int_add)
  finally have le: "ilog2 \<bar>y\<bar> \<le> 53 + t" using ilog2_le[OF ay] by simp
  have yq: "y / q = of_int m * 2 powi (t - e + 52)"
    unfolding y q_def by (simp add: power_int_diff power_int_add field_simps)
  have "\<exists>k. y / q = of_int k"
  proof (cases "0 \<le> t - e + 52")
    case True
    then show ?thesis unfolding yq by (metis powi_int of_int_mult)
  next
    case neg: False
    have "e = ilog2 \<bar>y\<bar>"
      using neg t unfolding e_def by (auto simp: max_def split: if_splits)
    with neg le have te: "t - e + 52 = - 1" by simp
    with \<open>e = ilog2 \<bar>y\<bar>\<close> have "(2::rat) powi (53 + t) \<le> \<bar>y\<bar>"
      using ilog2_bounds[OF ay] by (simp add: algebra_simps)
    also have "\<bar>y\<bar> = of_int \<bar>m\<bar> * 2 powi t"
      unfolding y by (simp add: abs_mult powi_pos less_imp_le)
    finally have "of_int (2 ^ 53) * (2::rat) powi t \<le> of_int \<bar>m\<bar> * 2 powi t"
      by (simp add: power_int_add)
    then have "(of_int (2 ^ 53) :: rat) \<le> of_int \<bar>m\<bar>"
      using powi_pos[of t] by (simp only: mult_le_cancel_right_pos)
    then have "2 ^ 53 \<le> \<bar>m\<bar>" by (simp only: of_int_le_iff)
    with m have "\<bar>m\<bar> = 2 ^ 53" by simp
    then have "\<bar>m\<bar> = \<bar>(2::int) ^ 53\<bar>" by simp
    then have "m = 2 ^ 53 \<or> m = - (2 ^ 53)" by (simp only: abs_eq_iff)
    then have "m = 2 * 2 ^ 52 \<or> m = 2 * (- (2 ^ 52))" by simp
    then obtain h where h: "m = 2 * h" by blast
    have "y / q = of_int h" unfolding yq te h by simp
    then show ?thesis by blast
  qed
  then obtain k where k: "y / q = of_int k" by blast
  have "fl y = of_int k * q" unfolding fly k by simp
  also have "\<dots> = y" using k qpos by (simp add: field_simps)
  finally show ?thesis .
qed

lemma fl_idem: "fl (fl x) = fl x"
  by (rule fl_exact) (rule fl_representable)

lemma fl_zero [simp]: "fl 0 = 0"
  by (simp add: fl_def)

lemma fl_of_int_integral: "\<exists>k. fl (of_int n) = of_int k"
proof (cases "n = 0")
  case True
  then show ?thesis by (simp add: exI[of _ 0])
next
  case False
  define x :: rat where "x = of_int n"
  define e where "e = max (ilog2 \<bar>x\<bar>) (- 1022)"
  define q where "q = (2::rat) powi (e - 52)"
  have x0: "x \<noteq> 0" using False by (simp add: x_def)
  have flx: "fl x = of_int (round_half_even (x / q)) * q"
    using x0 by (simp add: fl_def Let_def e_def q_def)
  show ?thesis
  proof (cases "0 \<le> e - 52")
    case True
    then have "q = of_int (2 ^ nat (e - 52))" unfolding q_def by (rule powi_int)
    then have "fl x = of_int (round_half_even (x / q) * 2 ^ nat (e - 52))"
      unfolding flx by simp
    then show ?thesis unfolding x_def by blast
  next
    case neg: False
    then have "0 \<le> 52 - e" by simp
    then have p: "(2::rat) powi (52 - e) = of_int (2 ^ nat (52 - e))" by (rule powi_int)
    have "x / q = x * 2 powi (52 - e)"
      unfolding q_def by (simp add: power_int_diff field_simps)
    also have "\<dots> = of_int (n * 2 ^ nat (52 - e))"
      unfolding p x_def by simp
    finally have xq: "x / q = of_int (n * 2 ^ nat (52 - e))" .
    have qpos: "0 < q" unfolding q_def by (rule powi_pos)
    have r: "of_int (round_half_even (x / q)) = x / q"
      unfolding xq by (simp only: rhe_of_int)
    have "fl x = (x / q) * q" unfolding flx r ..
    also have "\<dots> = x" using qpos by simp
    finally show ?thesis unfolding x_def by blast
  qed
qed

lemma py_round2_integral:
  "py_round2 (fl (of_int n)) = fl (of_int n)"
proof -
  obtain k where k: "fl (of_int n) = of_int k"
    using fl_of_int_integral by blast
  have a: "round_half_even (of_int k * 100) = k * 100"
    using rhe_of_int[of "k * 100"] by simp
  have "py_round2 (of_int k) = fl (of_int (k * 100) / 100)"
    unfolding py_round2_def a ..
  also have "\<dots> = fl (of_int k)" by simp
  also have "\<dots> = fl (fl (of_int n))" by (simp add: k)
  also have "\<dots> = fl (of_int n)" by (rule fl_idem)
  finally show ?thesis by (simp add: k)
qed

text \<open>\<^verbatim>\<open>round(x, 2)\<close> gives the double nearest to a number of two decimals, which is
  within half a unit of the second decimal of \<open>x\<close>.\<close>

lemma py_round2_zero: "py_round2 0 = 0"
  by (simp add: py_round2_def round_half_even_def)

lemma py_round2_grid: "\<exists>n::int. py_round2 x = fl (of_int n / 100)"
  unfolding py_round2_def by blast

lemma round_half_even_decimal_near:
  "\<bar>of_int (round_half_even (x * 100)) / 100 - x\<bar> \<le> 1 / 200"
  using rhe_near[of "x * 100"] by (simp add: abs_if field_simps split: if_splits)

section \<open>Event statistics\<close>

text \<open>The percentage of the statistics: the double \<open>a / b * 100\<close> rounded to two decimals,
  and 0 when \<open>b\<close> is 0.\<close>

lemma py_round2_percentage:
  "py_round2 (percentage a b)
   = (if 0 < b
      then fl (of_int (round_half_even (fl (fl (of_nat a / of_nat b) * 100) * 100)) / 100)
      else 0)"
proof (cases "0 < b")
  case True
  then show ?thesis
    by (simp add: percentage_def py_round2_def float_mul_def int_truediv_def)
next
  case False
  then show ?thesis
    by (simp add: percentage_def py_round2_zero)
qed

text \<open>
  Claim C5, as the code has it: for every existing event, eventStats returns the number
  of the event's registrations in status registered, the number of its attendance rows
  in status present (late and absent are not counted), an attendance percentage that is
  exactly 0 (no error) when the registration count is 0 and otherwise the value of
  \<^verbatim>\<open>round(attendance / registrations * 100, 2)\<close> in double arithmetic (the quotient of the
  two counts is rounded to the nearest double, so is its product with 100, and the
  exact value of that double is rounded to two decimals, a tie going to the even digit;
  the result is the double nearest to that decimal), and no mean rating when the event
  has no feedback.
\<close>

theorem C5_event_stats:
  "list_ex (\<lambda>e. e_id e = event_id) (events db) \<Longrightarrow>
   \<exists>stats. get_event_stats db event_id = Inr stats
     \<and> es_event_id stats = event_id
     \<and> es_total_registrations stats
         = length (filter (\<lambda>r. r_event_id r = event_id \<and> r_status r = REGISTERED)
                     (event_registrations db))
     \<and> es_total_attendance stats
         = length (filter (\<lambda>a. a_event_id a = event_id \<and> a_attendance_status a = PRESENT)
                     (attendance db))
     \<and> es_attendance_percentage stats
         = (if 0 < es_total_registrations stats
            then fl (of_int (round_half_even
                       (fl (fl (of_nat (es_total_attendance stats)
                                / of_nat (es_total_registrations stats)) * 100) * 100)) / 100)
            else 0)
     \<and> (\<not> list_ex (\<lambda>f. f_event_id f = event_id) (event_feedback db)
          \<longrightarrow> es_average_rating stats = None)"
proof -
  assume "list_ex (\<lambda>e. e_id e = event_id) (events db)"
  then obtain e where e: "find (\<lambda>e. e_id e = event_id) (events db) = Some e"
      and id: "e_id e = event_id"
    using find_if_list_ex[of "\<lambda>e. e_id e = event_id"] by blast
  have nf: "\<not> list_ex (\<lambda>f. f_event_id f = event_id) (event_feedback db) \<Longrightarrow>
     filter (\<lambda>f. f_event_id f = event_id) (event_feedback db) = []"
    by (auto simp: list_ex_iff filter_empty_conv)
  show ?thesis
    using nf
    by (simp add: get_event_stats_def e id event_stats_of_def Let_def count_registered_def
        count_present_event_def py_round2_percentage feedback_of_event_def sql_avg_def)
qed

theorem C5_event_stats_witness:
  "list_ex (\<lambda>e. e_id e = 1) (events example_stats_store)
   \<and> list_ex (\<lambda>e. e_id e = 2) (events example_stats_store)
   \<and> (\<exists>stats. get_event_stats example_stats_store 1 = Inr stats
         \<and> es_total_registrations stats = 3 \<and> es_total_attendance stats = 1
         \<and> es_attendance_percentage stats = fl (3333 / 100) \<and> es_average_rating stats = None)
   \<and> (\<exists>stats. get_event_stats example_stats_store 2 = Inr stats
         \<and> es_total_registrations stats = 0 \<and> es_total_attendance stats = 0
         \<and> es_attendance_percentage stats = 0 \<and> es_average_rating stats = None)"
proof -
  have e1: "list_ex (\<lambda>e. e_id e = 1) (events example_stats_store)"
    and e2: "list_ex (\<lambda>e. e_id e = 2) (events example_stats_store)"
    by (simp_all add: example_stats_store_def example_store_def example_event_def)
  have r: "fl (of_int (round_half_even (fl (fl (1 / 3) * 100) * 100)) / 100) = fl (3333 / 100)"
    by code_simp
  show ?thesis
    using C5_event_stats[OF e1] C5_event_stats[OF e2] e1 e2
    by (auto simp: r example_stats_store_def example_store_def example_registration_def
        example_attendance_def)
qed

text \<open>
  Claim C5 as stated takes the percentage for attendance / registrations * 100 rounded
  to 2 decimal places. With 23 students present of 160 registered that number is
  14.375, and every rounding of it to two decimals is 14.37 or 14.38, each 0.005 away;
  \<^verbatim>\<open>23 / 160 * 100\<close> is the double below 14.375, which \<^verbatim>\<open>round\<close> takes to 14.37, and
  the double nearest to 14.37 is more than 0.005 away from 14.375. The percentage
  returned is not the one the exact quotient rounds to under the rule of \<^verbatim>\<open>round\<close>
  (a tie to the even digit, 14.38).
\<close>

theorem C5_double_rounding_counterexample:
  "get_event_stats example_rounding_store 1
     = Inr \<lparr>es_event_id = 1, es_event_title = ''AI Workshop'', es_total_registrations = 160,
            es_total_attendance = 23, es_attendance_percentage = fl (1437 / 100),
            es_average_rating = None, es_total_feedback = 0\<rparr>
   \<and> (23 / 160 * 100 :: rat) = 14375 / 1000
   \<and> round_half_even (23 / 160 * 100 * 100) = 1438
   \<and> fl (1437 / 100) \<noteq> fl (1438 / 100)
   \<and> 1 / 200 < \<bar>fl (1437 / 100) - 23 / 160 * 100\<bar>"
  by code_simp

section \<open>One registration per student and event\<close>

lemma unique_update_registration:
  assumes "\<And>r. r_student_id (f r) = r_student_id r" "\<And>r. r_event_id (f r) = r_event_id r"
  shows "unique_registration (update_registration pk f db) = unique_registration db"
proof -
  have key_eq: "map ((\<lambda>r. (r_student_id r, r_event_id r)) \<circ> (\<lambda>r. if r_id r = pk then f r else r)) xs
        = map (\<lambda>r. (r_student_id r, r_event_id r)) xs" for xs
    by (induction xs) (simp_all add: assms)
  show ?thesis
    by (simp add: unique_registration_def update_registration_def key_eq)
qed

lemma length_update_registration:
  "length (event_registrations (update_registration pk f db)) = length (event_registrations db)"
  by (simp add: update_registration_def)

lemma distinct_key_filter_le_1:
  "distinct (map key xs) \<Longrightarrow> length (filter (\<lambda>x. key x = k \<and> P x) xs) \<le> 1"
proof (induction xs)
  case Nil
  then show ?case by simp
next
  case (Cons x xs)
  show ?case
  proof (cases "key x = k")
    case True
    with Cons.prems have "k \<notin> key ` set xs"
      by simp
    then have "\<forall>y\<in>set xs. key y \<noteq> k"
      by blast
    then have "filter (\<lambda>x. key x = k \<and> P x) xs = []"
      by (simp add: filter_empty_conv)
    then show ?thesis by simp
  next
    case False
    with Cons show ?thesis by simp
  qed
qed

lemma unique_active_le_1:
  "unique_registration db \<Longrightarrow> length (active_registrations db student_id event_id) \<le> 1"
  using distinct_key_filter_le_1[of "\<lambda>r. (r_student_id r, r_event_id r)" "event_registrations db"
      "(student_id, event_id)" "\<lambda>r. r_status r \<noteq> CANCELLED"]
  by (simp add: unique_registration_def active_registrations_def)

lemma create_registration_unique:
  "unique_registration db \<Longrightarrow> unique_registration (snd (create_registration db registration event utcnow))"
  by (auto simp: create_registration_def add_registration_def Let_def unique_registration_def list_ex_iff
      split: option.splits)

lemma create_registration_length:
  "list_ex (\<lambda>r. r_student_id r = rc_student_id registration \<and> r_event_id r = rc_event_id registration)
        (event_registrations db) \<Longrightarrow>
   snd (create_registration db registration event utcnow) = db"
  by (auto simp: create_registration_def add_registration_def Let_def split: option.splits)

lemma register_student_unique:
  "unique_registration db \<Longrightarrow> unique_registration (snd (register_student db registration utcnow))"
  by (auto simp: register_student_def create_registration_unique unique_update_registration
      split: option.splits RegistrationStatus.splits)

lemma cancel_registration_unique:
  "unique_registration db \<Longrightarrow> unique_registration (snd (cancel_registration db registration_id))"
  by (auto simp: cancel_registration_def Let_def unique_update_registration
      split: option.splits list.splits)

lemma mark_attendance_registrations:
  "event_registrations (snd (mark_attendance db att utcnow)) = event_registrations db"
  by (auto simp: mark_attendance_def add_attendance_def Let_def split: option.splits)

lemma submit_feedback_registrations:
  "event_registrations (snd (submit_feedback db fb utcnow)) = event_registrations db"
  by (auto simp: submit_feedback_def add_feedback_def Let_def split: option.splits)

lemma register_student_existing_length:
  assumes "list_ex (\<lambda>r. r_student_id r = rc_student_id registration \<and> r_event_id r = rc_event_id registration)
        (event_registrations db)"
  shows "length (event_registrations (snd (register_student db registration utcnow)))
     = length (event_registrations db)"
  using assms
  by (auto simp: register_student_def create_registration_length length_update_registration
      split: option.splits RegistrationStatus.splits)

text \<open>
  Claim C3: for every pair of a student and an event, register, cancelRegistration,
  markAttendance and submitFeedback keep the invariant that the pair has at most one
  registration row that is not cancelled; in particular register on a pair that already
  has a row, in any status, never creates a second row, and a cancelled row is reopened
  in place with status registered and a fresh timestamp.

  The invariant the operations carry is the unique constraint of the table: at most one
  row per pair, in any status. On a store that satisfies it, every operation returns a
  store that satisfies it, so no pair has two rows and none has two that are not
  cancelled. A register call on a pair that has a row leaves the number of rows as it
  was: a registered row is refused, a cancelled row is updated where it stands, and for
  a waitlisted row the insert the code attempts is refused by the constraint.
\<close>

theorem C3_one_registration_per_pair:
  assumes "unique_registration db"
  shows
    "unique_registration (snd (register_student db registration utcnow))
     \<and> unique_registration (snd (cancel_registration db registration_id))
     \<and> unique_registration (snd (mark_attendance db att utcnow))
     \<and> unique_registration (snd (submit_feedback db fb utcnow))
     \<and> length (active_registrations (snd (register_student db registration utcnow))
                 student_id event_id) \<le> 1
     \<and> length (active_registrations (snd (cancel_registration db registration_id))
                 student_id event_id) \<le> 1
     \<and> length (active_registrations (snd (mark_attendance db att utcnow))
                 student_id event_id) \<le> 1
     \<and> length (active_registrations (snd (submit_feedback db fb utcnow))
                 student_id event_id) \<le> 1
     \<and> (list_ex (\<lambda>r. r_student_id r = rc_student_id registration
                      \<and> r_event_id r = rc_event_id registration) (event_registrations db)
          \<longrightarrow> length (event_registrations (snd (register_student db registration utcnow)))
                = length (event_registrations db))
     \<and> (list_ex (\<lambda>s. s_id s = rc_student_id registration) (students db)
          \<and> find (\<lambda>e. e_id e = rc_event_id registration) (events db) = Some event
          \<and> \<not> e_is_cancelled event \<and> utcnow < e_start_date event
          \<and> find (\<lambda>r. r_student_id r = rc_student_id registration
                       \<and> r_event_id r = rc_event_id registration) (event_registrations db)
              = Some existing
          \<and> r_status existing = CANCELLED
          \<longrightarrow> register_student db registration utcnow
                = (Inr (existing\<lparr>r_registration_date := utcnow, r_status := REGISTERED\<rparr>),
                   db\<lparr>event_registrations :=
                        map (\<lambda>r. if r_id r = r_id existing
                                  then r\<lparr>r_registration_date := utcnow, r_status := REGISTERED\<rparr>
                                  else r)
                          (event_registrations db)\<rparr>))"
proof -
  have u1: "unique_registration (snd (register_student db registration utcnow))"
    using assms by (rule register_student_unique)
  have u2: "unique_registration (snd (cancel_registration db registration_id))"
    using assms by (rule cancel_registration_unique)
  have u3: "unique_registration (snd (mark_attendance db att utcnow))"
    using assms by (simp add: unique_registration_def mark_attendance_registrations)
  have u4: "unique_registration (snd (submit_feedback db fb utcnow))"
    using assms by (simp add: unique_registration_def submit_feedback_registrations)
  have reopen: "register_student db registration utcnow
                = (Inr (existing\<lparr>r_registration_date := utcnow, r_status := REGISTERED\<rparr>),
                   db\<lparr>event_registrations :=
                        map (\<lambda>r. if r_id r = r_id existing
                                  then r\<lparr>r_registration_date := utcnow, r_status := REGISTERED\<rparr>
                                  else r)
                          (event_registrations db)\<rparr>)"
    if "list_ex (\<lambda>s. s_id s = rc_student_id registration) (students db)"
      and "find (\<lambda>e. e_id e = rc_event_id registration) (events db) = Some event"
      and "\<not> e_is_cancelled event" and "utcnow < e_start_date event"
      and "find (\<lambda>r. r_student_id r = rc_student_id registration
                       \<and> r_event_id r = rc_event_id registration) (event_registrations db)
              = Some existing"
      and "r_status existing = CANCELLED"
  proof -
    from that(1) obtain s where "find (\<lambda>s. s_id s = rc_student_id registration) (students db) = Some s"
      using find_if_list_ex by blast
    with that show ?thesis
      by (simp add: register_student_def update_registration_def)
  qed
  show ?thesis
    using u1 u2 u3 u4 unique_active_le_1 register_student_existing_length reopen
    by blast
qed

theorem C3_one_registration_per_pair_witness:
  "unique_registration example_reopen_store
   \<and> register_student example_reopen_store
        \<lparr>rc_student_id = 1, rc_event_id = 1, rc_status = REGISTERED\<rparr> 50
      = (Inr (example_registration 1 1 1 50 REGISTERED),
         example_store [example_event 1 (Some 2)]
           [example_registration 1 1 1 50 REGISTERED, example_registration 2 2 1 6 WAITLISTED])
   \<and> length (event_registrations (snd (register_student example_reopen_store
        \<lparr>rc_student_id = 2, rc_event_id = 1, rc_status = REGISTERED\<rparr> 50))) = 2
   \<and> unique_registration (snd (register_student example_reopen_store
        \<lparr>rc_student_id = 2, rc_event_id = 1, rc_status = REGISTERED\<rparr> 50))"
proof -
  have u: "unique_registration example_reopen_store"
    by (simp add: unique_registration_def example_reopen_store_def example_store_def
        example_registration_def)
  show ?thesis
    using u
      C3_one_registration_per_pair[OF u,
        of "\<lparr>rc_student_id = 1, rc_event_id = 1, rc_status = REGISTERED\<rparr>" 50 0
           "\<lparr>ac_student_id = 1, ac_event_id = 1, ac_attendance_status = PRESENT,
             ac_check_out_time = None\<rparr>"
           "\<lparr>fc_student_id = 1, fc_event_id = 1, fc_rating = 3, fc_feedback_text = None\<rparr>"
           1 1 "example_event 1 (Some 2)" "example_registration 1 1 1 5 CANCELLED"]
      C3_one_registration_per_pair[OF u,
        of "\<lparr>rc_student_id = 2, rc_event_id = 1, rc_status = REGISTERED\<rparr>" 50 0
           "\<lparr>ac_student_id = 1, ac_event_id = 1, ac_attendance_status = PRESENT,
             ac_check_out_time = None\<rparr>"
           "\<lparr>fc_student_id = 1, fc_event_id = 1, fc_rating = 3, fc_feedback_text = None\<rparr>"
           1 1 "example_event 1 (Some 2)" "example_registration 1 1 1 5 CANCELLED"]
    by (simp add: example_reopen_store_def example_store_def example_registration_def
        example_event_def example_student_def)
qed

section \<open>Promotion from the waitlist\<close>

lemma sort_key_head:
  "sort_key f xs = y # ys \<Longrightarrow>
     \<exists>us vs. xs = us @ y # vs \<and> (\<forall>u\<in>set us. f y < f u) \<and> (\<forall>v\<in>set vs. f y \<le> f v)"
proof (induction xs arbitrary: y ys)
  case Nil
  then show ?case by simp
next
  case (Cons x xs)
  show ?case
  proof (cases "sort_key f xs")
    case Nil
    then have "xs = []"
      by (metis length_0_conv length_sort)
    with Cons.prems have "x # xs = [] @ y # []" by simp
    then show ?thesis by (metis empty_iff empty_set)
  next
    case (Cons z zs)
    from Cons.IH[OF Cons] obtain us vs where
      xs: "xs = us @ z # vs" and us: "\<forall>u\<in>set us. f z < f u" and vs: "\<forall>v\<in>set vs. f z \<le> f v"
      by blast
    show ?thesis
    proof (cases "f x \<le> f z")
      case True
      with Cons Cons.prems have "y = x" by simp
      moreover have "\<forall>v\<in>set xs. f x \<le> f v"
        using True us vs xs by fastforce
      ultimately have "x # xs = [] @ y # xs" "\<forall>v\<in>set xs. f y \<le> f v" by simp_all
      then show ?thesis by (metis empty_iff empty_set)
    next
      case False
      with Cons Cons.prems have "y = z" by simp
      moreover have "x # xs = (x # us) @ z # vs" using xs by simp
      moreover have "\<forall>u\<in>set (x # us). f z < f u" using False us by auto
      ultimately show ?thesis using vs by blast
    qed
  qed
qed

lemma find_Some_props: "find P xs = Some x \<Longrightarrow> P x \<and> x \<in> set xs"
  by (induction xs) (auto split: if_splits)

lemma waitlisted_after_cancel:
  "filter (\<lambda>r. r_event_id r = eid \<and> r_status r = WAITLISTED)
     (map (\<lambda>r. if r_id r = rid then r\<lparr>r_status := CANCELLED\<rparr> else r) xs)
   = filter (\<lambda>r. r_event_id r = eid \<and> r_status r = WAITLISTED \<and> r_id r \<noteq> rid) xs"
  by (induction xs) auto

lemma promote_after_cancel:
  "r_id w \<noteq> rid \<Longrightarrow>
   map (\<lambda>r. if r_id r = r_id w then r\<lparr>r_status := REGISTERED\<rparr> else r)
     (map (\<lambda>r. if r_id r = rid then r\<lparr>r_status := CANCELLED\<rparr> else r) xs)
   = map (\<lambda>r. if r_id r = rid then r\<lparr>r_status := CANCELLED\<rparr>
              else if r_id r = r_id w then r\<lparr>r_status := REGISTERED\<rparr> else r) xs"
  by (induction xs) auto



lemma sort_key_nonempty: "xs \<noteq> [] \<Longrightarrow> \<exists>y ys. sort_key f xs = y # ys"
proof -
  assume "xs \<noteq> []"
  then have "length (sort_key f xs) \<noteq> 0" by simp
  then show ?thesis by (cases "sort_key f xs") auto
qed

lemma cancel_registration_promotes:
  assumes reg: "find (\<lambda>r. r_id r = rid) (event_registrations db) = Some reg"
    and st: "r_status reg \<noteq> CANCELLED"
    and ev: "find (\<lambda>e. e_id e = r_event_id reg) (events db) = Some event"
    and cap: "truthy (e_max_capacity event)"
    and rest: "filter (\<lambda>r. r_event_id r = r_event_id reg \<and> r_status r = WAITLISTED \<and> r_id r \<noteq> rid)
                 (event_registrations db) \<noteq> []"
  shows "\<exists>w us vs.
      filter (\<lambda>r. r_event_id r = r_event_id reg \<and> r_status r = WAITLISTED \<and> r_id r \<noteq> rid)
        (event_registrations db) = us @ w # vs
      \<and> (\<forall>u\<in>set us. r_registration_date w < r_registration_date u)
      \<and> (\<forall>v\<in>set vs. r_registration_date w \<le> r_registration_date v)
      \<and> cancel_registration db rid
          = (Inr ''Registration cancelled successfully'',
             db\<lparr>event_registrations :=
                  map (\<lambda>r. if r_id r = rid then r\<lparr>r_status := CANCELLED\<rparr>
                            else if r_id r = r_id w then r\<lparr>r_status := REGISTERED\<rparr> else r)
                    (event_registrations db)\<rparr>)"
proof -
  let ?rem = "filter (\<lambda>r. r_event_id r = r_event_id reg \<and> r_status r = WAITLISTED \<and> r_id r \<noteq> rid)
                (event_registrations db)"
  let ?regs1 = "map (\<lambda>r. if r_id r = rid then r\<lparr>r_status := CANCELLED\<rparr> else r)
                  (event_registrations db)"
  let ?db1 = "db\<lparr>event_registrations := ?regs1\<rparr>"
  from reg have rid: "r_id reg = rid"
    using find_Some_props[of "\<lambda>r. r_id r = rid"] by blast
  from sort_key_nonempty[OF rest] obtain w ws where
    srt: "sort_key r_registration_date ?rem = w # ws"
    by blast
  from sort_key_head[OF srt] obtain us vs where
    dec: "?rem = us @ w # vs"
    and us: "\<forall>u\<in>set us. r_registration_date w < r_registration_date u"
    and vs: "\<forall>v\<in>set vs. r_registration_date w \<le> r_registration_date v"
    by blast
  have "w \<in> set ?rem" by (subst dec) simp
  then have wid: "r_id w \<noteq> rid" by simp
  have db1: "update_registration rid (\<lambda>r. r\<lparr>r_status := CANCELLED\<rparr>) db = ?db1"
    by (simp add: update_registration_def)
  have sel: "event_registrations ?db1 = ?regs1"
    by simp
  have wl1: "waitlisted_of ?db1 (r_event_id reg) = ?rem"
    unfolding waitlisted_of_def sel by (rule waitlisted_after_cancel)
  have pm: "map (\<lambda>r. if r_id r = r_id w then r\<lparr>r_status := REGISTERED\<rparr> else r)
              (event_registrations ?db1)
            = map (\<lambda>r. if r_id r = rid then r\<lparr>r_status := CANCELLED\<rparr>
                      else if r_id r = r_id w then r\<lparr>r_status := REGISTERED\<rparr> else r)
                (event_registrations db)"
    unfolding sel by (rule promote_after_cancel[OF wid])
  have ev1: "find (\<lambda>e. e_id e = r_event_id reg) (events ?db1) = Some event"
    using ev by simp
  have fin: "update_registration (r_id w) (\<lambda>r. r\<lparr>r_status := REGISTERED\<rparr>) ?db1
     = db\<lparr>event_registrations :=
                  map (\<lambda>r. if r_id r = rid then r\<lparr>r_status := CANCELLED\<rparr>
                            else if r_id r = r_id w then r\<lparr>r_status := REGISTERED\<rparr> else r)
                    (event_registrations db)\<rparr>"
    unfolding update_registration_def pm by simp
  have res: "cancel_registration db rid
          = (Inr ''Registration cancelled successfully'',
             update_registration (r_id w) (\<lambda>r. r\<lparr>r_status := REGISTERED\<rparr>) ?db1)"
    unfolding cancel_registration_def reg option.case rid db1 Let_def ev1 wl1 srt list.case
    using st cap by simp
  show ?thesis
    apply (rule exI[of _ w])
    apply (rule exI[of _ us])
    apply (rule exI[of _ vs])
    apply (intro conjI)
       apply (rule dec)
      apply (rule us)
     apply (rule vs)
    apply (simp only: res fin)
    done
qed


text \<open>Without an event row, without a capacity that is set and not 0, or without another
  waitlisted row of the event, the cancellation is the only change.\<close>

lemma cancel_registration_plain:
  assumes reg: "find (\<lambda>r. r_id r = rid) (event_registrations db) = Some reg"
    and st: "r_status reg \<noteq> CANCELLED"
    and np: "find (\<lambda>e. e_id e = r_event_id reg) (events db) = None
          \<or> (\<exists>event. find (\<lambda>e. e_id e = r_event_id reg) (events db) = Some event
                \<and> \<not> truthy (e_max_capacity event))
          \<or> filter (\<lambda>r. r_event_id r = r_event_id reg \<and> r_status r = WAITLISTED \<and> r_id r \<noteq> rid)
               (event_registrations db) = []"
  shows "cancel_registration db rid
          = (Inr ''Registration cancelled successfully'',
             db\<lparr>event_registrations :=
                  map (\<lambda>r. if r_id r = rid then r\<lparr>r_status := CANCELLED\<rparr> else r)
                    (event_registrations db)\<rparr>)"
proof -
  let ?rem = "filter (\<lambda>r. r_event_id r = r_event_id reg \<and> r_status r = WAITLISTED \<and> r_id r \<noteq> rid)
                (event_registrations db)"
  let ?regs1 = "map (\<lambda>r. if r_id r = rid then r\<lparr>r_status := CANCELLED\<rparr> else r)
                  (event_registrations db)"
  let ?db1 = "db\<lparr>event_registrations := ?regs1\<rparr>"
  from reg have rid: "r_id reg = rid"
    using find_Some_props[of "\<lambda>r. r_id r = rid"] by blast
  have db1: "update_registration rid (\<lambda>r. r\<lparr>r_status := CANCELLED\<rparr>) db = ?db1"
    by (simp add: update_registration_def)
  have sel: "event_registrations ?db1 = ?regs1"
    by simp
  have wl1: "waitlisted_of ?db1 (r_event_id reg) = ?rem"
    unfolding waitlisted_of_def sel by (rule waitlisted_after_cancel)
  have evs: "events ?db1 = events db"
    by simp
  have start: "cancel_registration db rid
     = (case find (\<lambda>e. e_id e = r_event_id reg) (events db) of
          None \<Rightarrow> (Inr ''Registration cancelled successfully'', ?db1)
        | Some event \<Rightarrow>
            if truthy (e_max_capacity event)
            then (case sort_key r_registration_date ?rem of
                    [] \<Rightarrow> (Inr ''Registration cancelled successfully'', ?db1)
                  | waitlisted # rest \<Rightarrow>
                      (Inr ''Registration cancelled successfully'',
                       update_registration (r_id waitlisted)
                         (\<lambda>r. r\<lparr>r_status := REGISTERED\<rparr>) ?db1))
            else (Inr ''Registration cancelled successfully'', ?db1))"
    unfolding cancel_registration_def reg option.case rid db1 Let_def evs wl1
    using st by simp
  from np show ?thesis
  proof (elim disjE exE conjE)
    assume "find (\<lambda>e. e_id e = r_event_id reg) (events db) = None"
    then show ?thesis unfolding start by simp
  next
    fix event
    assume "find (\<lambda>e. e_id e = r_event_id reg) (events db) = Some event"
      and "\<not> truthy (e_max_capacity event)"
    then show ?thesis unfolding start by simp
  next
    assume e: "?rem = []"
    show ?thesis
      unfolding start e
      by (simp split: option.split)
  qed
qed

text \<open>An update that keeps the ids keeps the place of every row.\<close>

lemma find_map_keep_id:
  "(\<And>r. r_id (g r) = r_id r) \<Longrightarrow>
   find (\<lambda>r. r_id r = k) (map g xs) = map_option g (find (\<lambda>r. r_id r = k) xs)"
  by (induction xs) auto

lemma promotions_map:
  "map fst (filter (\<lambda>(old, new). P old new) (zip xs (map g xs))) = filter (\<lambda>x. P x (g x)) xs"
  by (induction xs) auto

lemma distinct_ids_eq:
  "distinct (map r_id xs) \<Longrightarrow> x \<in> set xs \<Longrightarrow> y \<in> set xs \<Longrightarrow> r_id x = r_id y \<Longrightarrow> x = y"
  by (meson distinct_map inj_onD)

lemma filter_eq_singleton:
  "distinct xs \<Longrightarrow> w \<in> set xs \<Longrightarrow> filter (\<lambda>r. r = w) xs = [w]"
proof (induction xs)
  case Nil
  then show ?case by simp
next
  case (Cons x xs)
  show ?case
  proof (cases "x = w")
    case True
    with Cons.prems have "filter (\<lambda>r. r = w) xs = []"
      by (auto simp: filter_empty_conv)
    with True show ?thesis by simp
  next
    case False
    with Cons show ?thesis by simp
  qed
qed

text \<open>
  Claim C2, as the code has it: when cancelRegistration is applied to a registered row of
  an event whose maximum capacity is set and is not 0, and the event has a waitlisted
  row, exactly one waitlisted row becomes registered: the one with the earliest
  registration timestamp, the first in table order among equal timestamps. Every other
  waitlisted row stays as it is, and the call promotes one row only.

  The waitlist of the event, in table order, splits around the promoted row \<open>w\<close>: the rows
  before it have strictly later timestamps, the rows after it have timestamps not
  earlier. The primary key is assumed unique, as the table declares it.
\<close>

theorem C2_cancel_promotes_earliest_waitlisted:
  assumes ids: "distinct (map r_id (event_registrations db))"
    and reg: "find (\<lambda>r. r_id r = rid) (event_registrations db) = Some reg"
    and st: "r_status reg = REGISTERED"
    and ev: "find (\<lambda>e. e_id e = r_event_id reg) (events db) = Some event"
    and cap: "e_max_capacity event = Some c" and c: "c \<noteq> 0"
    and wl: "waitlisted_of db (r_event_id reg) \<noteq> []"
  shows "\<exists>w us vs.
      waitlisted_of db (r_event_id reg) = us @ w # vs
      \<and> (\<forall>u\<in>set us. r_registration_date w < r_registration_date u)
      \<and> (\<forall>v\<in>set vs. r_registration_date w \<le> r_registration_date v)
      \<and> cancel_registration db rid
          = (Inr ''Registration cancelled successfully'',
             db\<lparr>event_registrations :=
                  map (\<lambda>r. if r_id r = rid then r\<lparr>r_status := CANCELLED\<rparr>
                            else if r_id r = r_id w then r\<lparr>r_status := REGISTERED\<rparr> else r)
                    (event_registrations db)\<rparr>)
      \<and> promotions db (snd (cancel_registration db rid)) = [w]
      \<and> (\<forall>i<length (event_registrations db).
            r_status (event_registrations db ! i) = WAITLISTED \<and> event_registrations db ! i \<noteq> w
            \<longrightarrow> event_registrations (snd (cancel_registration db rid)) ! i
                  = event_registrations db ! i)"
proof -
  let ?regs = "event_registrations db"
  from reg have rid: "r_id reg = rid" and rin: "reg \<in> set ?regs"
    using find_Some_props[of "\<lambda>r. r_id r = rid"] by blast+
  have other: "r_id r \<noteq> rid" if "r \<in> set ?regs" "r_status r = WAITLISTED" for r
    using distinct_ids_eq[OF ids that(1) rin] that(2) st rid by auto
  have rem: "filter (\<lambda>r. r_event_id r = r_event_id reg \<and> r_status r = WAITLISTED \<and> r_id r \<noteq> rid) ?regs
        = waitlisted_of db (r_event_id reg)"
    unfolding waitlisted_of_def by (rule filter_cong) (use other in auto)
  have st': "r_status reg \<noteq> CANCELLED" using st by simp
  have cap': "truthy (e_max_capacity event)" using cap c by simp
  from cancel_registration_promotes[OF reg st' ev cap'] wl rem
  obtain w us vs where
    dec: "waitlisted_of db (r_event_id reg) = us @ w # vs"
    and us: "\<forall>u\<in>set us. r_registration_date w < r_registration_date u"
    and vs: "\<forall>v\<in>set vs. r_registration_date w \<le> r_registration_date v"
    and res: "cancel_registration db rid
          = (Inr ''Registration cancelled successfully'',
             db\<lparr>event_registrations :=
                  map (\<lambda>r. if r_id r = rid then r\<lparr>r_status := CANCELLED\<rparr>
                            else if r_id r = r_id w then r\<lparr>r_status := REGISTERED\<rparr> else r)
                    ?regs\<rparr>)"
    by auto
  let ?g = "\<lambda>r. if r_id r = rid then r\<lparr>r_status := CANCELLED\<rparr>
                 else if r_id r = r_id w then r\<lparr>r_status := REGISTERED\<rparr> else r"
  have "w \<in> set (waitlisted_of db (r_event_id reg))" by (subst dec) simp
  then have win: "w \<in> set ?regs" and wst: "r_status w = WAITLISTED"
    by (simp_all add: waitlisted_of_def)
  have dist: "distinct ?regs" using ids by (simp add: distinct_map)
  have "filter (\<lambda>r. r_status r = WAITLISTED \<and> r_status (?g r) = REGISTERED) ?regs
        = filter (\<lambda>r. r = w) ?regs"
  proof (rule filter_cong[OF refl])
    fix r assume r: "r \<in> set ?regs"
    show "(r_status r = WAITLISTED \<and> r_status (?g r) = REGISTERED) = (r = w)"
      using other[OF r] distinct_ids_eq[OF ids r win] wst by auto
  qed
  then have prom: "promotions db (snd (cancel_registration db rid)) = [w]"
    unfolding promotions_def res by (simp add: promotions_map filter_eq_singleton[OF dist win])
  have keep: "\<forall>i<length ?regs. r_status (?regs ! i) = WAITLISTED \<and> ?regs ! i \<noteq> w
            \<longrightarrow> event_registrations (snd (cancel_registration db rid)) ! i = ?regs ! i"
  proof (intro allI impI)
    fix i assume i: "i < length ?regs" and a: "r_status (?regs ! i) = WAITLISTED \<and> ?regs ! i \<noteq> w"
    from i have m: "?regs ! i \<in> set ?regs" by simp
    have "r_id (?regs ! i) \<noteq> rid" using other[OF m] a by simp
    moreover have "r_id (?regs ! i) \<noteq> r_id w" using distinct_ids_eq[OF ids m win] a by blast
    ultimately show "event_registrations (snd (cancel_registration db rid)) ! i = ?regs ! i"
      unfolding res using i by simp
  qed
  show ?thesis
    apply (rule exI[of _ w])
    apply (rule exI[of _ us])
    apply (rule exI[of _ vs])
    apply (intro conjI)
         apply (rule dec)
        apply (rule us)
       apply (rule vs)
      apply (rule res)
     apply (rule prom)
    apply (rule keep)
    done
qed

theorem C2_cancel_promotes_earliest_waitlisted_witness:
  "distinct (map r_id (event_registrations example_waitlist_store))
   \<and> find (\<lambda>r. r_id r = 1) (event_registrations example_waitlist_store)
       = Some (example_registration 1 1 1 5 REGISTERED)
   \<and> waitlisted_of example_waitlist_store 1
       = [example_registration 2 2 1 7 WAITLISTED, example_registration 3 3 1 6 WAITLISTED]
   \<and> cancel_registration example_waitlist_store 1
       = (Inr ''Registration cancelled successfully'',
          example_store [example_event 1 (Some 1)]
            [example_registration 1 1 1 5 CANCELLED, example_registration 2 2 1 7 WAITLISTED,
             example_registration 3 3 1 6 REGISTERED])
   \<and> promotions example_waitlist_store (snd (cancel_registration example_waitlist_store 1))
       = [example_registration 3 3 1 6 WAITLISTED]"
proof -
  have ids: "distinct (map r_id (event_registrations example_waitlist_store))"
    by (simp add: example_waitlist_store_def example_store_def example_registration_def)
  have reg: "find (\<lambda>r. r_id r = 1) (event_registrations example_waitlist_store)
       = Some (example_registration 1 1 1 5 REGISTERED)"
    by (simp add: example_waitlist_store_def example_store_def example_registration_def)
  have st: "r_status (example_registration 1 1 1 5 REGISTERED) = REGISTERED"
    by (simp add: example_registration_def)
  have ev: "find (\<lambda>e. e_id e = r_event_id (example_registration 1 1 1 5 REGISTERED))
              (events example_waitlist_store) = Some (example_event 1 (Some 1))"
    by (simp add: example_waitlist_store_def example_store_def example_registration_def
        example_event_def)
  have cap: "e_max_capacity (example_event 1 (Some 1)) = Some 1"
    by (simp add: example_event_def)
  have wl: "waitlisted_of example_waitlist_store 1
       = [example_registration 2 2 1 7 WAITLISTED, example_registration 3 3 1 6 WAITLISTED]"
    by (simp add: waitlisted_of_def example_waitlist_store_def example_store_def
        example_registration_def)
  have wl': "waitlisted_of example_waitlist_store
               (r_event_id (example_registration 1 1 1 5 REGISTERED)) \<noteq> []"
    using wl by (simp add: example_registration_def)
  have res: "cancel_registration example_waitlist_store 1
       = (Inr ''Registration cancelled successfully'',
          example_store [example_event 1 (Some 1)]
            [example_registration 1 1 1 5 CANCELLED, example_registration 2 2 1 7 WAITLISTED,
             example_registration 3 3 1 6 REGISTERED])"
    by code_simp
  have prom: "promotions example_waitlist_store
               (example_store [example_event 1 (Some 1)]
            [example_registration 1 1 1 5 CANCELLED, example_registration 2 2 1 7 WAITLISTED,
             example_registration 3 3 1 6 REGISTERED])
       = [example_registration 3 3 1 6 WAITLISTED]"
    by code_simp
  show ?thesis
    using C2_cancel_promotes_earliest_waitlisted[OF ids reg st ev cap _ wl'] ids reg wl res prom
    by simp
qed

text \<open>
  Claim C2 as stated speaks of every event that has a maximum capacity. The guard of the
  promotion is \<^verbatim>\<open>if event and event.max_capacity\<close>, which is false for the capacity 0: such
  an event takes registrations without a capacity check, a request may carry the status
  waitlisted, and cancelling the registered row then promotes nobody.
\<close>

theorem C2_zero_capacity_counterexample:
  "e_max_capacity (example_event 1 (Some 0)) = Some 0
   \<and> run (example_store [example_event 1 (Some 0)] [])
        [Register \<lparr>rc_student_id = 1, rc_event_id = 1, rc_status = REGISTERED\<rparr> 5,
         Register \<lparr>rc_student_id = 2, rc_event_id = 1, rc_status = WAITLISTED\<rparr> 6]
      = example_store [example_event 1 (Some 0)]
          [example_registration 1 1 1 5 REGISTERED, example_registration 2 2 1 6 WAITLISTED]
   \<and> cancel_registration
        (example_store [example_event 1 (Some 0)]
           [example_registration 1 1 1 5 REGISTERED, example_registration 2 2 1 6 WAITLISTED]) 1
      = (Inr ''Registration cancelled successfully'',
         example_store [example_event 1 (Some 0)]
           [example_registration 1 1 1 5 CANCELLED, example_registration 2 2 1 6 WAITLISTED])
   \<and> promotions
        (example_store [example_event 1 (Some 0)]
           [example_registration 1 1 1 5 REGISTERED, example_registration 2 2 1 6 WAITLISTED])
        (snd (cancel_registration
           (example_store [example_event 1 (Some 0)]
              [example_registration 1 1 1 5 REGISTERED, example_registration 2 2 1 6 WAITLISTED]) 1))
      = []"
  by code_simp

text \<open>
  Claim C10, as the code has it: cancelRegistration applied to a waitlisted row succeeds
  and sets the row to cancelled, whatever the event and the other rows are. When the
  event's maximum capacity is set and is not 0 and the event has another waitlisted
  row, the earliest of the remaining waitlisted rows (the first of them in the table
  among those with the least timestamp) is promoted to registered, although the
  cancelled row held no seat, and no other row changes. When the event has no row, its
  capacity is not set or is 0, or the event has no other waitlisted row, the
  cancellation is the only change.
\<close>

theorem C10_cancel_waitlisted:
  assumes reg: "find (\<lambda>r. r_id r = rid) (event_registrations db) = Some reg"
    and st: "r_status reg = WAITLISTED"
  shows "\<exists>db'.
      cancel_registration db rid = (Inr ''Registration cancelled successfully'', db')
      \<and> find (\<lambda>r. r_id r = rid) (event_registrations db') = Some (reg\<lparr>r_status := CANCELLED\<rparr>)
      \<and> (\<forall>event c.
            find (\<lambda>e. e_id e = r_event_id reg) (events db) = Some event
            \<and> e_max_capacity event = Some c \<and> c \<noteq> 0
            \<and> filter (\<lambda>r. r_id r \<noteq> rid) (waitlisted_of db (r_event_id reg)) \<noteq> []
            \<longrightarrow> (\<exists>w us vs.
                   filter (\<lambda>r. r_id r \<noteq> rid) (waitlisted_of db (r_event_id reg)) = us @ w # vs
                   \<and> (\<forall>u\<in>set us. r_registration_date w < r_registration_date u)
                   \<and> (\<forall>v\<in>set vs. r_registration_date w \<le> r_registration_date v)
                   \<and> r_id w \<noteq> rid
                   \<and> db' = db\<lparr>event_registrations :=
                              map (\<lambda>r. if r_id r = rid then r\<lparr>r_status := CANCELLED\<rparr>
                                        else if r_id r = r_id w then r\<lparr>r_status := REGISTERED\<rparr>
                                        else r)
                                (event_registrations db)\<rparr>))
      \<and> (find (\<lambda>e. e_id e = r_event_id reg) (events db) = None
          \<or> (\<exists>event. find (\<lambda>e. e_id e = r_event_id reg) (events db) = Some event
                \<and> (e_max_capacity event = None \<or> e_max_capacity event = Some 0))
          \<or> filter (\<lambda>r. r_id r \<noteq> rid) (waitlisted_of db (r_event_id reg)) = []
          \<longrightarrow> db' = db\<lparr>event_registrations :=
                         map (\<lambda>r. if r_id r = rid then r\<lparr>r_status := CANCELLED\<rparr> else r)
                           (event_registrations db)\<rparr>)"
proof -
  let ?rest = "filter (\<lambda>r. r_id r \<noteq> rid) (waitlisted_of db (r_event_id reg))"
  let ?plain = "find (\<lambda>e. e_id e = r_event_id reg) (events db) = None
          \<or> (\<exists>event. find (\<lambda>e. e_id e = r_event_id reg) (events db) = Some event
                \<and> (e_max_capacity event = None \<or> e_max_capacity event = Some 0))
          \<or> ?rest = []"
  let ?db1 = "db\<lparr>event_registrations :=
                   map (\<lambda>r. if r_id r = rid then r\<lparr>r_status := CANCELLED\<rparr> else r)
                     (event_registrations db)\<rparr>"
  have rem: "filter (\<lambda>r. r_event_id r = r_event_id reg \<and> r_status r = WAITLISTED \<and> r_id r \<noteq> rid)
               (event_registrations db) = ?rest"
    unfolding waitlisted_of_def by (simp add: conj_ac)
  have st': "r_status reg \<noteq> CANCELLED" using st by simp
  from reg have rid: "r_id reg = rid"
    using find_Some_props[of "\<lambda>r. r_id r = rid"] by blast
  show ?thesis
  proof (cases ?plain)
    case True
    have tr: "find (\<lambda>e. e_id e = r_event_id reg) (events db) = None
          \<or> (\<exists>event. find (\<lambda>e. e_id e = r_event_id reg) (events db) = Some event
                \<and> \<not> truthy (e_max_capacity event))
          \<or> filter (\<lambda>r. r_event_id r = r_event_id reg \<and> r_status r = WAITLISTED \<and> r_id r \<noteq> rid)
               (event_registrations db) = []"
      using True unfolding rem by auto
    have res: "cancel_registration db rid = (Inr ''Registration cancelled successfully'', ?db1)"
      by (rule cancel_registration_plain[OF reg st' tr])
    have fnd: "find (\<lambda>r. r_id r = rid) (event_registrations ?db1)
               = Some (reg\<lparr>r_status := CANCELLED\<rparr>)"
      using find_map_keep_id[of "\<lambda>r. if r_id r = rid then r\<lparr>r_status := CANCELLED\<rparr> else r"
          rid "event_registrations db"] reg rid
      by simp
    have np: "\<forall>event c.
            find (\<lambda>e. e_id e = r_event_id reg) (events db) = Some event
            \<and> e_max_capacity event = Some c \<and> c \<noteq> 0 \<and> ?rest \<noteq> []
            \<longrightarrow> (\<exists>w us vs.
                   ?rest = us @ w # vs
                   \<and> (\<forall>u\<in>set us. r_registration_date w < r_registration_date u)
                   \<and> (\<forall>v\<in>set vs. r_registration_date w \<le> r_registration_date v)
                   \<and> r_id w \<noteq> rid
                   \<and> ?db1 = db\<lparr>event_registrations :=
                              map (\<lambda>r. if r_id r = rid then r\<lparr>r_status := CANCELLED\<rparr>
                                        else if r_id r = r_id w then r\<lparr>r_status := REGISTERED\<rparr>
                                        else r)
                                (event_registrations db)\<rparr>)"
      using True by auto
    show ?thesis
      apply (rule exI[of _ ?db1])
      apply (intro conjI)
         apply (rule res)
        apply (rule fnd)
       apply (rule np)
      apply (rule impI)
      apply (rule refl)
      done
  next
    case False
    then obtain event where ev: "find (\<lambda>e. e_id e = r_event_id reg) (events db) = Some event"
      by auto
    with False have cap: "truthy (e_max_capacity event)"
      by (cases "e_max_capacity event") auto
    from False have rest: "?rest \<noteq> []" by simp
    then have rest': "filter (\<lambda>r. r_event_id r = r_event_id reg \<and> r_status r = WAITLISTED \<and> r_id r \<noteq> rid)
                 (event_registrations db) \<noteq> []"
      unfolding rem .
    from cancel_registration_promotes[OF reg st' ev cap rest']
    obtain w us vs where
      dec: "?rest = us @ w # vs"
      and us: "\<forall>u\<in>set us. r_registration_date w < r_registration_date u"
      and vs: "\<forall>v\<in>set vs. r_registration_date w \<le> r_registration_date v"
      and res: "cancel_registration db rid
          = (Inr ''Registration cancelled successfully'',
             db\<lparr>event_registrations :=
                  map (\<lambda>r. if r_id r = rid then r\<lparr>r_status := CANCELLED\<rparr>
                            else if r_id r = r_id w then r\<lparr>r_status := REGISTERED\<rparr> else r)
                    (event_registrations db)\<rparr>)"
      unfolding rem by blast
    let ?db2 = "db\<lparr>event_registrations :=
                  map (\<lambda>r. if r_id r = rid then r\<lparr>r_status := CANCELLED\<rparr>
                            else if r_id r = r_id w then r\<lparr>r_status := REGISTERED\<rparr> else r)
                    (event_registrations db)\<rparr>"
    have "w \<in> set ?rest" by (subst dec) simp
    then have wid: "r_id w \<noteq> rid" by simp
    have fnd: "find (\<lambda>r. r_id r = rid) (event_registrations ?db2)
               = Some (reg\<lparr>r_status := CANCELLED\<rparr>)"
      using find_map_keep_id[of "\<lambda>r. if r_id r = rid then r\<lparr>r_status := CANCELLED\<rparr>
                            else if r_id r = r_id w then r\<lparr>r_status := REGISTERED\<rparr> else r"
          rid "event_registrations db"] reg rid
      by simp
    have pr: "\<exists>w us vs.
                   ?rest = us @ w # vs
                   \<and> (\<forall>u\<in>set us. r_registration_date w < r_registration_date u)
                   \<and> (\<forall>v\<in>set vs. r_registration_date w \<le> r_registration_date v)
                   \<and> r_id w \<noteq> rid
                   \<and> ?db2 = db\<lparr>event_registrations :=
                              map (\<lambda>r. if r_id r = rid then r\<lparr>r_status := CANCELLED\<rparr>
                                        else if r_id r = r_id w then r\<lparr>r_status := REGISTERED\<rparr>
                                        else r)
                                (event_registrations db)\<rparr>"
      apply (rule exI[of _ w])
      apply (rule exI[of _ us])
      apply (rule exI[of _ vs])
      apply (intro conjI)
          apply (rule dec)
         apply (rule us)
        apply (rule vs)
       apply (rule wid)
      apply (rule refl)
      done
    show ?thesis
      apply (rule exI[of _ ?db2])
      apply (intro conjI)
         apply (rule res)
        apply (rule fnd)
       apply (intro allI impI)
       apply (rule pr)
      apply (rule impI)
      using False apply blast
      done
  qed
qed

theorem C10_cancel_waitlisted_witness:
  "find (\<lambda>r. r_id r = 2) (event_registrations example_waitlist_store)
       = Some (example_registration 2 2 1 7 WAITLISTED)
   \<and> filter (\<lambda>r. r_id r \<noteq> 2) (waitlisted_of example_waitlist_store 1)
       = [example_registration 3 3 1 6 WAITLISTED]
   \<and> cancel_registration example_waitlist_store 2
       = (Inr ''Registration cancelled successfully'',
          example_store [example_event 1 (Some 1)]
            [example_registration 1 1 1 5 REGISTERED, example_registration 2 2 1 7 CANCELLED,
             example_registration 3 3 1 6 REGISTERED])
   \<and> find (\<lambda>r. r_id r = 2) (event_registrations example_reopen_store)
       = Some (example_registration 2 2 1 6 WAITLISTED)
   \<and> filter (\<lambda>r. r_id r \<noteq> 2) (waitlisted_of example_reopen_store 1) = []
   \<and> cancel_registration example_reopen_store 2
       = (Inr ''Registration cancelled successfully'',
          example_store [example_event 1 (Some 2)]
            [example_registration 1 1 1 5 CANCELLED, example_registration 2 2 1 6 CANCELLED])"
proof -
  have reg: "find (\<lambda>r. r_id r = 2) (event_registrations example_waitlist_store)
       = Some (example_registration 2 2 1 7 WAITLISTED)"
    by (simp add: example_waitlist_store_def example_store_def example_registration_def)
  have st: "r_status (example_registration 2 2 1 7 WAITLISTED) = WAITLISTED"
    by (simp add: example_registration_def)
  have wl: "filter (\<lambda>r. r_id r \<noteq> 2) (waitlisted_of example_waitlist_store 1)
       = [example_registration 3 3 1 6 WAITLISTED]"
    by (simp add: waitlisted_of_def example_waitlist_store_def example_store_def
        example_registration_def)
  have res: "cancel_registration example_waitlist_store 2
       = (Inr ''Registration cancelled successfully'',
          example_store [example_event 1 (Some 1)]
            [example_registration 1 1 1 5 REGISTERED, example_registration 2 2 1 7 CANCELLED,
             example_registration 3 3 1 6 REGISTERED])"
    by code_simp
  have reg2: "find (\<lambda>r. r_id r = 2) (event_registrations example_reopen_store)
       = Some (example_registration 2 2 1 6 WAITLISTED)"
    by (simp add: example_reopen_store_def example_store_def example_registration_def)
  have st2: "r_status (example_registration 2 2 1 6 WAITLISTED) = WAITLISTED"
    by (simp add: example_registration_def)
  have wl2: "filter (\<lambda>r. r_id r \<noteq> 2) (waitlisted_of example_reopen_store 1) = []"
    by (simp add: waitlisted_of_def example_reopen_store_def example_store_def
        example_registration_def)
  have res2: "cancel_registration example_reopen_store 2
       = (Inr ''Registration cancelled successfully'',
          example_store [example_event 1 (Some 2)]
            [example_registration 1 1 1 5 CANCELLED, example_registration 2 2 1 6 CANCELLED])"
    by code_simp
  show ?thesis
    using C10_cancel_waitlisted[OF reg st] C10_cancel_waitlisted[OF reg2 st2]
      reg wl res reg2 wl2 res2
    by simp
qed

text \<open>
  Claim C10 as stated conditions the promotion on the event having a capacity; with the
  capacity 0 the guard \<^verbatim>\<open>event.max_capacity\<close> is false and the remaining waitlisted row
  is not promoted.
\<close>

theorem C10_zero_capacity_counterexample:
  "e_max_capacity (example_event 1 (Some 0)) = Some 0
   \<and> run (example_store [example_event 1 (Some 0)] [])
        [Register \<lparr>rc_student_id = 1, rc_event_id = 1, rc_status = WAITLISTED\<rparr> 5,
         Register \<lparr>rc_student_id = 2, rc_event_id = 1, rc_status = WAITLISTED\<rparr> 6]
      = example_store [example_event 1 (Some 0)]
          [example_registration 1 1 1 5 WAITLISTED, example_registration 2 2 1 6 WAITLISTED]
   \<and> cancel_registration
        (example_store [example_event 1 (Some 0)]
           [example_registration 1 1 1 5 WAITLISTED, example_registration 2 2 1 6 WAITLISTED]) 1
      = (Inr ''Registration cancelled successfully'',
         example_store [example_event 1 (Some 0)]
           [example_registration 1 1 1 5 CANCELLED, example_registration 2 2 1 6 WAITLISTED])"
  by code_simp

section \<open>Ranked reports\<close>

lemma mset_sorted_reverse: "mset (sorted_reverse key xs) = mset xs"
  by (simp add: sorted_reverse_def)

lemma sorted_sorted_reverse: "sorted_wrt (\<lambda>a b. key b \<le> key a) (sorted_reverse key xs)"
proof -
  have "sorted (map key (sort_key key (rev xs)))"
    by (rule sorted_sort_key)
  then have "sorted_wrt (\<lambda>a b. key a \<le> key b) (sort_key key (rev xs))"
    by (simp add: sorted_map)
  then show ?thesis
    by (simp add: sorted_reverse_def sorted_wrt_rev)
qed

lemma stable_sorted_reverse:
  "filter (\<lambda>y. key y = k) (sorted_reverse key xs) = filter (\<lambda>y. key y = k) xs"
proof -
  have "filter (\<lambda>y. key y = k) (sort_key key (rev xs)) = filter (\<lambda>y. key y = k) (rev xs)"
    by (rule sort_key_stable)
  then show ?thesis
    by (simp add: sorted_reverse_def rev_filter[symmetric])
qed

lemma slice_to_nonneg: "0 \<le> limit \<Longrightarrow> slice_to limit xs = take (nat limit) xs"
  by (simp add: slice_to_def)

lemma event_stats_of_total: "es_total_registrations (event_stats_of db e) = count_registered db (e_id e)"
  by (simp add: event_stats_of_def Let_def)

lemma sorted_reverse3_first:
  "key b < key a \<Longrightarrow> key c = key b \<Longrightarrow> sorted_reverse key [a, b, c] = [a, b, c]"
  using less_imp_le[of "key b" "key a"] by (auto simp: sorted_reverse_def)

lemma sorted_reverse3_second:
  "key a < key b \<Longrightarrow> key c = key a \<Longrightarrow> sorted_reverse key [a, b, c] = [b, a, c]"
  using leD[of "key b" "key a"] by (auto simp: sorted_reverse_def)

lemma sorted_reverse3_third:
  "key a < key c \<Longrightarrow> key b = key a \<Longrightarrow> sorted_reverse key [a, b, c] = [c, a, b]"
  using leD[of "key c" "key a"] by (auto simp: sorted_reverse_def)

text \<open>The rows the query of the popularity report selects: an institution filter that is
  absent or 0 selects every event, an event-type filter that is absent every type.\<close>

lemma popularity_query_filter:
  "popularity_query db college_id event_type
   = filter (\<lambda>e. (case college_id of None \<Rightarrow> True | Some k \<Rightarrow> k = 0 \<or> e_college_id e = k)
                \<and> (case event_type of None \<Rightarrow> True | Some t \<Rightarrow> e_event_type e = Some t))
       (events db)"
  unfolding popularity_query_def
  by (rule filter_cong)
     (auto simp: college_filter_def event_type_filter_def split: option.splits)




text \<open>The rows the query of the top-students report selects: the students that pass the
  institution filter and whose institution has a row.\<close>

lemma top_students_query_fst:
  "map fst (top_students_query db college_id)
   = filter (\<lambda>s. (case college_id of None \<Rightarrow> True | Some k \<Rightarrow> k = 0 \<or> s_college_id s = k)
                \<and> list_ex (\<lambda>c. c_id c = s_college_id s) (colleges db))
       (students db)"
proof -
  have j: "map fst (concat (map (\<lambda>s. case find (\<lambda>c. c_id c = s_college_id s) cs of
                                       None \<Rightarrow> [] | Some c \<Rightarrow> [(s, c)]) xs))
           = filter (\<lambda>s. list_ex (\<lambda>c. c_id c = s_college_id s) cs) xs" for cs xs
  proof (induction xs)
    case Nil
    then show ?case by simp
  next
    case (Cons x xs)
    show ?case
    proof (cases "list_ex (\<lambda>c. c_id c = s_college_id x) cs")
      case True
      then obtain c where "find (\<lambda>c. c_id c = s_college_id x) cs = Some c"
        using find_if_list_ex[of "\<lambda>c. c_id c = s_college_id x" cs] by blast
      with True Cons.IH show ?thesis by simp
    next
      case False
      then have "find (\<lambda>c. c_id c = s_college_id x) cs = None"
        by (rule find_if_not_list_ex)
      with False Cons.IH show ?thesis by simp
    qed
  qed
  have c: "college_filter college_id x
           = (case college_id of None \<Rightarrow> True | Some k \<Rightarrow> k = 0 \<or> x = k)" for x
    by (auto simp: college_filter_def split: option.splits)
  show ?thesis
    unfolding top_students_query_def j filter_filter c
    by (rule filter_cong) auto
qed

lemma top_student_row_score:
  "ts_participation_score (top_student_row db s c) = participation_score_spec db (s_id s)"
proof -
  let ?att = "float_of_int (int (length (filter (\<lambda>a. a_student_id a = s_id s
                                                  \<and> a_attendance_status a = PRESENT)
                                          (attendance db))))"
  have i: "py_round2 (float_add ?att (float_mul x 0)) = ?att" for x
    unfolding float_add_def float_mul_def float_of_int_def
    by (simp only: mult_zero_right fl_zero add_0_right fl_idem py_round2_integral)
  have m: "float_mul v (1 / 2) = float_mul (1 / 2) v" for v
    by (simp add: float_mul_def mult.commute)
  show ?thesis
  proof (cases "map f_rating (filter (\<lambda>f. f_student_id f = s_id s) (event_feedback db)) = []")
    case True
    then show ?thesis
      using i[of "1 / 2"]
      by (simp add: top_student_row_def participation_score_spec_def Let_def
          count_present_student_def avg_rating_given_def sql_avg_def)
  next
    case False
    show ?thesis
    proof (cases "float_div
                    (float_of_int (sum_list (map f_rating
                       (filter (\<lambda>f. f_student_id f = s_id s) (event_feedback db)))))
                    (float_of_int (int (length (map f_rating
                       (filter (\<lambda>f. f_student_id f = s_id s) (event_feedback db)))))) = 0")
      case True
      with False show ?thesis
        using i[of "1 / 2"]
        by (simp add: top_student_row_def participation_score_spec_def Let_def
            count_present_student_def avg_rating_given_def sql_avg_def)
    next
      case nz: False
      with False show ?thesis
        by (simp add: top_student_row_def participation_score_spec_def Let_def
            count_present_student_def avg_rating_given_def sql_avg_def m)
    qed
  qed
qed

lemma top_student_rows_ids:
  "map ts_student_id (map (\<lambda>(s, c). top_student_row db s c) q) = map s_id (map fst q)"
  by (induction q) (auto simp: top_student_row_def Let_def)

lemma top_student_rows_scores:
  "map ts_participation_score (map (\<lambda>(s, c). top_student_row db s c) q)
   = map (\<lambda>s. participation_score_spec db (s_id s)) (map fst q)"
  by (induction q) (auto simp: top_student_row_score)




end
